theory Spec2Isabelle
  imports Main "HOL-Library.AList" "HOL-Library.Multiset"
begin

section \<open>Strings\<close>

text \<open>
  JavaScript strings are modelled as \<^typ>\<open>string\<close>: a list of code units below 256
  (ASCII and Latin-1). In that range \<open>toLowerCase\<close> works unit by unit and maps
  no unit outside \<open>A-Z\<close> to an ASCII letter.
\<close>

definition is_digit :: "char \<Rightarrow> bool" where
  "is_digit c \<longleftrightarrow> 48 \<le> (of_char c :: nat) \<and> (of_char c :: nat) \<le> 57"

definition is_lower :: "char \<Rightarrow> bool" where
  "is_lower c \<longleftrightarrow> 97 \<le> (of_char c :: nat) \<and> (of_char c :: nat) \<le> 122"

text \<open>The character class \<open>[a-z0-9]\<close>.\<close>

definition is_az09 :: "char \<Rightarrow> bool" where
  "is_az09 c \<longleftrightarrow> is_lower c \<or> is_digit c"

definition toLowerChar :: "char \<Rightarrow> char" where
  "toLowerChar c =
     (let n = (of_char c :: nat) in
      if 65 \<le> n \<and> n \<le> 90 then char_of (n + 32)
      else if 192 \<le> n \<and> n \<le> 222 \<and> n \<noteq> 215 then char_of (n + 32)
      else c)"

definition toLowerCase :: "string \<Rightarrow> string" where
  "toLowerCase s = map toLowerChar s"

section \<open>Slug generator\<close>

text \<open>
  \<open>match_prefix ps s\<close> matches the anchored sequence of one-character classes \<open>ps\<close>
  at the start of \<open>s\<close> and returns what follows the match.
\<close>

fun match_prefix :: "(char \<Rightarrow> bool) list \<Rightarrow> string \<Rightarrow> string option" where
  "match_prefix [] s = Some s"
| "match_prefix (p # ps) [] = None"
| "match_prefix (p # ps) (c # cs) = (if p c then match_prefix ps cs else None)"

definition is_hyphen :: "char \<Rightarrow> bool" where
  "is_hyphen c \<longleftrightarrow> c = CHR ''-''"

text \<open>The pattern \<open>^\d{4}-\d{2}-\d{2}-\<close>.\<close>

definition date_prefix :: "(char \<Rightarrow> bool) list" where
  "date_prefix =
     [is_digit, is_digit, is_digit, is_digit, is_hyphen,
      is_digit, is_digit, is_hyphen,
      is_digit, is_digit, is_hyphen]"

text \<open>\<open>filename.replace(/^\d{4}-\d{2}-\d{2}-/, '')\<close>\<close>

definition strip_date_prefix :: "string \<Rightarrow> string" where
  "strip_date_prefix s = (case match_prefix date_prefix s of Some rest \<Rightarrow> rest | None \<Rightarrow> s)"

text \<open>
  \<open>.replace(/[^a-z0-9]+/g, '-')\<close>: scanning from the left, every maximal run of
  characters outside \<open>[a-z0-9]\<close> is replaced by one hyphen.
\<close>

function replace_runs :: "string \<Rightarrow> string" where
  "replace_runs [] = []"
| "replace_runs (c # cs) =
     (if is_az09 c then c # replace_runs cs
      else CHR ''-'' # replace_runs (dropWhile (\<lambda>d. \<not> is_az09 d) cs))"
  by pat_completeness auto
termination
  by (relation "measure length") (auto simp: less_Suc_eq_le length_dropWhile_le)

text \<open>\<open>.replace(/^-+|-+$/g, '')\<close>: the leading and the trailing run of hyphens go.\<close>

definition trim_hyphens :: "string \<Rightarrow> string" where
  "trim_hyphens s = rev (dropWhile is_hyphen (rev (dropWhile is_hyphen s)))"

text \<open>The method \<open>_generateSlug\<close>.\<close>

definition generateSlug :: "string \<Rightarrow> string" where
  "generateSlug filename =
     (let slug = strip_date_prefix filename
      in trim_hyphens (replace_runs (toLowerCase slug)))"


text \<open>The shape every generated slug has: only \<open>[a-z0-9-]\<close>, no two hyphens in a row.\<close>

definition hyphen_pair :: "char \<Rightarrow> char \<Rightarrow> bool" where
  "hyphen_pair a b \<longleftrightarrow> is_hyphen a \<and> is_hyphen b"

definition slug_shaped :: "string \<Rightarrow> bool" where
  "slug_shaped t \<longleftrightarrow>
     (\<forall>c \<in> set t. is_az09 c \<or> is_hyphen c) \<and>
     successively (\<lambda>a b. \<not> hyphen_pair a b) t"

definition trimmed :: "string \<Rightarrow> bool" where
  "trimmed t \<longleftrightarrow> t = [] \<or> (\<not> is_hyphen (hd t) \<and> \<not> is_hyphen (last t))"

text \<open>The part of the generator that follows the removal of the date prefix.\<close>

definition normalise :: "string \<Rightarrow> string" where
  "normalise s = trim_hyphens (replace_runs (toLowerCase s))"

section \<open>Paths\<close>

definition endsWith :: "string \<Rightarrow> string \<Rightarrow> bool" where
  "endsWith s e \<longleftrightarrow> length e \<le> length s \<and> drop (length s - length e) s = e"

text \<open>\<open>s.includes(sub)\<close>\<close>

definition str_includes :: "string \<Rightarrow> string \<Rightarrow> bool" where
  "str_includes s sub \<longleftrightarrow>
     list_ex (\<lambda>i. take (length sub) (drop i s) = sub) [0 ..< Suc (length s)]"

definition is_slash :: "char \<Rightarrow> bool" where
  "is_slash c \<longleftrightarrow> c = CHR ''/''"

text \<open>The last component of a POSIX path; trailing slashes are ignored.\<close>

definition last_component :: "string \<Rightarrow> string" where
  "last_component p =
     rev (takeWhile (\<lambda>c. \<not> is_slash c) (dropWhile is_slash (rev p)))"

text \<open>
  \<open>path.basename(p, ext)\<close> of Node, for the paths the indexer sees (a directory joined
  with a file name): the last component, without \<open>ext\<close> when the component ends with
  it and is longer than it; the path \<open>ext\<close> itself gives the empty string.
\<close>

definition basename :: "string \<Rightarrow> string \<Rightarrow> string" where
  "basename p ext =
     (if ext \<noteq> [] \<and> p = ext then []
      else let b = last_component p
           in if ext \<noteq> [] \<and> length ext < length b \<and> endsWith b ext
              then take (length b - length ext) b else b)"

text \<open>\<open>path.join(a, b)\<close> for a normalised directory \<open>a\<close> and a plain name \<open>b\<close>.\<close>

definition path_join :: "string \<Rightarrow> string \<Rightarrow> string" where
  "path_join a b = a @ ''/'' @ b"

section \<open>Numbers and dates as text\<close>

definition digit_char :: "nat \<Rightarrow> char" where
  "digit_char d = char_of (48 + d)"

function digits_of :: "nat \<Rightarrow> string" where
  "digits_of n = (if n < 10 then [digit_char n] else digits_of (n div 10) @ [digit_char (n mod 10)])"
  by pat_completeness auto
termination
  by (relation "measure id") auto

text \<open>\<open>String(n)\<close> for an integer below 1e21 in absolute value.\<close>

definition show_int :: "int \<Rightarrow> string" where
  "show_int n = (if n < 0 then CHR ''-'' # digits_of (nat (- n)) else digits_of (nat n))"

definition pad_left :: "nat \<Rightarrow> string \<Rightarrow> string" where
  "pad_left w t = replicate (w - length t) CHR ''0'' @ t"

text \<open>
  The calendar date (year, month, day, in UTC) of a time value: the day number since
  the epoch, turned into a date of the proleptic Gregorian calendar.
\<close>

definition civil_from_days :: "int \<Rightarrow> int \<times> int \<times> int" where
  "civil_from_days days =
     (let z = days + 719468;
          era = z div 146097;
          doe = z - era * 146097;
          yoe = (doe - doe div 1460 + doe div 36524 - doe div 146096) div 365;
          y = yoe + era * 400;
          doy = doe - (365 * yoe + yoe div 4 - yoe div 100);
          mp = (5 * doy + 2) div 153;
          d = doy - (153 * mp + 2) div 5 + 1;
          m = (if mp < 10 then mp + 3 else mp - 9)
      in (if m \<le> 2 then y + 1 else y, m, d))"

text \<open>\<open>d.toISOString().split('T')[0]\<close> for a valid date with time value \<open>t\<close>.\<close>

definition iso_date :: "int \<Rightarrow> string" where
  "iso_date t =
     (case civil_from_days (t div 86400000) of
        (y, m, d) \<Rightarrow>
          (if 0 \<le> y \<and> y \<le> 9999 then pad_left 4 (digits_of (nat y))
           else (if y < 0 then CHR ''-'' else CHR ''+'') # pad_left 6 (digits_of (nat \<bar>y\<bar>)))
          @ ''-'' @ pad_left 2 (digits_of (nat m)) @ ''-'' @ pad_left 2 (digits_of (nat d)))"


section \<open>Front matter\<close>

text \<open>
  The values gray-matter hands over for front-matter fields: null, booleans, numbers,
  strings, \<open>Date\<close> objects (YAML timestamps, given by their time value in
  milliseconds), arrays (YAML sequences) and plain objects (YAML mappings). Numbers are
  the integers; fractions are not modelled. The metadata object is the list of its
  entries, in the order of \<open>Object.entries\<close>, for keys that are not array indices.
\<close>

datatype fmval =
    VNull
  | VBool bool
  | VNum int
  | VStr string
  | VDate int
  | VArr "fmval list"
  | VObj "(string \<times> fmval) list"

type_synonym metadata = "(string \<times> fmval) list"

text \<open>A property read: \<open>None\<close> is \<open>undefined\<close>.\<close>

definition get_prop :: "metadata \<Rightarrow> string \<Rightarrow> fmval option" where
  "get_prop md k = map_of md k"

fun truthy :: "fmval \<Rightarrow> bool" where
  "truthy VNull = False"
| "truthy (VBool b) = b"
| "truthy (VNum n) = (n \<noteq> 0)"
| "truthy (VStr s) = (s \<noteq> [])"
| "truthy (VDate t) = True"
| "truthy (VArr vs) = True"
| "truthy (VObj kvs) = True"

text \<open>\<open>v || d\<close>\<close>

definition or_else :: "fmval option \<Rightarrow> fmval \<Rightarrow> fmval" where
  "or_else v d = (case v of None \<Rightarrow> d | Some x \<Rightarrow> if truthy x then x else d)"

text \<open>The values that are objects: \<open>typeof v === 'object'\<close> and \<open>v\<close> is not null.\<close>

fun is_object :: "fmval \<Rightarrow> bool" where
  "is_object (VDate t) = True"
| "is_object (VArr vs) = True"
| "is_object (VObj kvs) = True"
| "is_object _ = False"

text \<open>A \<open>Date\<close> object: its time value, \<open>None\<close> for an Invalid Date (time value NaN).\<close>

type_synonym jsdate = "int option"

text \<open>\<open>TimeClip\<close>: time values beyond 8.64e15 ms are invalid.\<close>

definition timeClip :: "int \<Rightarrow> jsdate" where
  "timeClip t = (if \<bar>t\<bar> \<le> 8640000000000000 then Some t else None)"

text \<open>
  The errors that reach the code, each with what its \<open>message\<close> is made of: the
  failing system call and its path for the errors of \<open>fs\<close>, the message itself for
  the others.
\<close>

datatype error =
    ENOENT string string
  | ENOTDIR string string
  | EISDIR string
  | YAMLException string
  | RenderError string
  | Error string

fun message :: "error \<Rightarrow> string" where
  "message (ENOENT call p) =
     ''ENOENT: no such file or directory, '' @ call @ '' '' @ [CHR 0x27] @ p @ [CHR 0x27]"
| "message (ENOTDIR call p) =
     ''ENOTDIR: not a directory, '' @ call @ '' '' @ [CHR 0x27] @ p @ [CHR 0x27]"
| "message (EISDIR call) = ''EISDIR: illegal operation on a directory, '' @ call"
| "message (YAMLException m) = m"
| "message (RenderError m) = m"
| "message (Error m) = m"

text \<open>
  What the code takes from outside the repository: the parser of gray-matter (what a
  call of \<open>matter\<close> computes for a text that is not in its cache), the renderer of
  markdown-it, the built-in conversions of JavaScript whose results the code uses
  (\<open>Date.parse\<close>, the conversion of a string to a number, the text of a number of
  absolute value 1e21 or more, the text of a date), the clock, and the two helpers of the
  security module.
\<close>

record extern =
  parseMatter :: "string \<Rightarrow> error + (metadata \<times> string)"
  md_render :: "string \<Rightarrow> error + string"
  Date_parse :: "string \<Rightarrow> int option"
  StringToNumber :: "string \<Rightarrow> int option"
  NumberToString :: "int \<Rightarrow> string"
  Date_toString :: "int \<Rightarrow> string"
  clock :: "string \<Rightarrow> int"
  sanitizeFilename :: "string \<Rightarrow> string"
  isPathInContentDirectory :: "string \<Rightarrow> string \<Rightarrow> bool"

text \<open>\<open>String(n)\<close> for an integer: decimal digits up to 1e21, exponential from there.\<close>

definition number_text :: "extern \<Rightarrow> int \<Rightarrow> string" where
  "number_text x n = (if \<bar>n\<bar> < 10 ^ 21 then show_int n else NumberToString x n)"

text \<open>\<open>elements.join(',')\<close>\<close>

fun join_elements :: "string list \<Rightarrow> string" where
  "join_elements [] = []"
| "join_elements [l] = l"
| "join_elements (l # ls) = l @ '','' @ join_elements ls"

text \<open>
  \<open>String(v)\<close>, which is also what a template literal makes of \<open>v\<close>: an array is the
  texts of its elements joined by commas, with the empty text for a null element; a
  plain object is \<open>[object Object]\<close>.
\<close>

fun js_String :: "extern \<Rightarrow> fmval \<Rightarrow> string" where
  "js_String x VNull = ''null''"
| "js_String x (VBool b) = (if b then ''true'' else ''false'')"
| "js_String x (VNum n) = number_text x n"
| "js_String x (VStr s) = s"
| "js_String x (VDate t) = Date_toString x t"
| "js_String x (VArr vs) =
     join_elements (map (\<lambda>v. if v = VNull then [] else js_String x v) vs)"
| "js_String x (VObj kvs) = ''[object Object]''"

text \<open>
  \<open>clock x p\<close> is the reading of the clock while the file \<open>p\<close> is handled.
  \<open>new Date(v)\<close> for a front-matter value: the time value of a date, the number of a
  primitive that is no string, and the parse of the text of everything else.
\<close>

fun new_Date :: "extern \<Rightarrow> fmval \<Rightarrow> jsdate" where
  "new_Date x (VDate t) = timeClip t"
| "new_Date x (VStr s) = (case Date_parse x s of None \<Rightarrow> None | Some t \<Rightarrow> timeClip t)"
| "new_Date x (VNum n) = timeClip n"
| "new_Date x (VBool b) = Some (if b then 1 else 0)"
| "new_Date x VNull = Some 0"
| "new_Date x (VArr vs) =
     (case Date_parse x (js_String x (VArr vs)) of None \<Rightarrow> None | Some t \<Rightarrow> timeClip t)"
| "new_Date x (VObj kvs) =
     (case Date_parse x (js_String x (VObj kvs)) of None \<Rightarrow> None | Some t \<Rightarrow> timeClip t)"

section \<open>File system\<close>

record filesystem =
  dirs :: "string \<rightharpoonup> string list"
  files :: "string \<rightharpoonup> string"

definition fs_access :: "filesystem \<Rightarrow> string \<Rightarrow> bool" where
  "fs_access fs p \<longleftrightarrow> dirs fs p \<noteq> None \<or> files fs p \<noteq> None"

definition readdir :: "filesystem \<Rightarrow> string \<Rightarrow> error + string list" where
  "readdir fs p =
     (case dirs fs p of Some names \<Rightarrow> Inr names
      | None \<Rightarrow> if files fs p \<noteq> None then Inl (ENOTDIR ''scandir'' p)
                else Inl (ENOENT ''scandir'' p))"

definition readFile :: "filesystem \<Rightarrow> string \<Rightarrow> error + string" where
  "readFile fs p =
     (case files fs p of Some text \<Rightarrow> Inr text
      | None \<Rightarrow> if dirs fs p \<noteq> None then Inl (EISDIR ''read'') else Inl (ENOENT ''open'' p))"

section \<open>The cache of gray-matter\<close>

text \<open>
  The code calls \<open>matter(text)\<close> without options. gray-matter then keeps one file
  object for every non-empty text it is given, in \<open>matter.cache\<close>: the object is
  stored under the text before the text is parsed, with an empty data object and the
  whole text as content, and the parse fills it in. When the parse throws, the object
  stays in the cache as it was stored. A later call with the same text returns a copy of
  the cached object without parsing; the copy holds the same data object.

  A cache maps a text to the data and the content of its file object.
\<close>

type_synonym cache = "string \<rightharpoonup> (metadata \<times> string)"

text \<open>
  A reference to a data object: the data object of the cache entry of a text, or a fresh
  empty object that nothing else holds, which gray-matter returns for the empty text.
\<close>

datatype mdref = Cached string | Fresh

text \<open>The call \<open>matter(input)\<close>: the data, the content and the data object, or the error.\<close>

definition matter ::
  "extern \<Rightarrow> cache \<Rightarrow> string \<Rightarrow> (error + (metadata \<times> string \<times> mdref)) \<times> cache" where
  "matter x c input =
     (if input = [] then (Inr ([], [], Fresh), c)
      else case c input of
             Some (data, content) \<Rightarrow> (Inr (data, content, Cached input), c)
           | None \<Rightarrow>
               (case parseMatter x input of
                  Inl e \<Rightarrow> (Inl e, c(input \<mapsto> ([], input)))
                | Inr (data, content) \<Rightarrow>
                    (Inr (data, content, Cached input), c(input \<mapsto> (data, content)))))"

text \<open>What a reference reads in a cache.\<close>

definition deref :: "cache \<Rightarrow> mdref \<Rightarrow> metadata" where
  "deref c r =
     (case r of
        Fresh \<Rightarrow> []
      | Cached t \<Rightarrow> (case c t of None \<Rightarrow> [] | Some (data, content) \<Rightarrow> data))"

text \<open>
  The assignment \<open>metadata[k] = v\<close> through a reference: the key keeps its place when
  the object has it and goes to the end when not.
\<close>

definition assign :: "cache \<Rightarrow> mdref \<Rightarrow> string \<Rightarrow> fmval \<Rightarrow> cache" where
  "assign c r k v =
     (case r of
        Fresh \<Rightarrow> c
      | Cached t \<Rightarrow>
          (case c t of
             None \<Rightarrow> c
           | Some (data, content) \<Rightarrow> c(t \<mapsto> (AList.update k v data, content))))"

section \<open>Markdown handler\<close>

text \<open>\<open>parseFile\<close>: every error is raised again as an \<open>Error\<close> with a message of its own.\<close>

definition parseFile ::
  "extern \<Rightarrow> filesystem \<Rightarrow> cache \<Rightarrow> string
     \<Rightarrow> (error + (metadata \<times> string \<times> mdref)) \<times> cache" where
  "parseFile x fs c filePath =
     (case readFile fs filePath of
        Inl e \<Rightarrow>
          (Inl (Error (''Failed to parse markdown file '' @ filePath @ '': '' @ message e)), c)
      | Inr fileContent \<Rightarrow>
          (case matter x c fileContent of
             (Inl e, c') \<Rightarrow>
               (Inl (Error (''Failed to parse markdown file '' @ filePath @ '': '' @ message e)), c')
           | (Inr parsed, c') \<Rightarrow> (Inr parsed, c')))"

section \<open>Content indexer\<close>

text \<open>
  A content item. Its \<open>metadata\<close> is the data object that the parse returned: the item
  holds the object, not a copy of it.
\<close>

record content_item =
  slug :: string
  type :: fmval
  title :: fmval
  date :: jsdate
  order :: fmval
  published :: bool
  filePath :: string
  metadata :: mdref

text \<open>
  The index is a JavaScript \<open>Map\<close> from slug to item: its entries in insertion order.
  \<open>set\<close> on a key already there keeps the entry's place.
\<close>

type_synonym index = "(string \<times> content_item) list"

definition index_get :: "index \<Rightarrow> string \<Rightarrow> content_item option" where
  "index_get idx k = map_of idx k"

definition index_has :: "index \<Rightarrow> string \<Rightarrow> bool" where
  "index_has idx k \<longleftrightarrow> map_of idx k \<noteq> None"

definition index_set :: "index \<Rightarrow> string \<Rightarrow> content_item \<Rightarrow> index" where
  "index_set idx k v = AList.update k v idx"

definition index_delete :: "index \<Rightarrow> string \<Rightarrow> index" where
  "index_delete idx k = AList.delete k idx"

definition index_values :: "index \<Rightarrow> content_item list" where
  "index_values idx = map snd idx"

text \<open>
  The state of the running site: the files on disk, the cache of gray-matter and the
  index of the content indexer.
\<close>

record state =
  disk :: filesystem
  cache :: cache
  index :: index

text \<open>
  The content item that \<open>_indexFile\<close> builds from the parsed front matter \<open>md\<close>, whose
  data object is \<open>r\<close>; the \<open>type\<close> argument may be \<open>null\<close>.
\<close>

definition contentItem_of ::
  "extern \<Rightarrow> string \<Rightarrow> string option \<Rightarrow> metadata \<Rightarrow> mdref \<Rightarrow> content_item" where
  "contentItem_of x path ty md r =
     (let filename = basename path ''.md'';
          slug = generateSlug filename;
          contentType = or_else (get_prop md ''type'') (or_else (map_option VStr ty) (VStr ''page''))
      in \<lparr> slug = slug,
           type = contentType,
           title = or_else (get_prop md ''title'') (VStr filename),
           date = (case get_prop md ''date'' of
                     None \<Rightarrow> Some (clock x path)
                   | Some d \<Rightarrow> if truthy d then new_Date x d else Some (clock x path)),
           order = or_else (get_prop md ''order'') (VNum 0),
           published = (get_prop md ''published'' \<noteq> Some (VBool False)),
           filePath = path,
           metadata = r \<rparr>)"

text \<open>
  The body of the \<open>try\<close> block of \<open>_indexFile\<close>: the error it raises, if any, and the
  state it leaves.
\<close>

definition indexFile_try ::
  "extern \<Rightarrow> state \<Rightarrow> string \<Rightarrow> string option \<Rightarrow> error option \<times> state" where
  "indexFile_try x w path ty =
     (case parseFile x (disk w) (cache w) path of
        (Inl e, c') \<Rightarrow> (Some e, w\<lparr> cache := c' \<rparr>)
      | (Inr (md, body, r), c') \<Rightarrow>
          (let contentItem = contentItem_of x path ty md r
           in (None, w\<lparr> cache := c',
                         index := index_set (index w) (slug contentItem) contentItem \<rparr>)))"

text \<open>The method \<open>_indexFile\<close>: a failure is caught and logged.\<close>

definition indexFile :: "extern \<Rightarrow> state \<Rightarrow> string \<Rightarrow> string option \<Rightarrow> state" where
  "indexFile x w path ty = snd (indexFile_try x w path ty)"

text \<open>The loop over the directory listing.\<close>

fun scan_files :: "extern \<Rightarrow> state \<Rightarrow> string \<Rightarrow> string \<Rightarrow> string list \<Rightarrow> state" where
  "scan_files x w dirPath ty [] = w"
| "scan_files x w dirPath ty (file # rest) =
     (if endsWith file ''.md''
      then scan_files x (indexFile x w (path_join dirPath file) (Some ty)) dirPath ty rest
      else scan_files x w dirPath ty rest)"

definition scanDirectory_try :: "extern \<Rightarrow> state \<Rightarrow> string \<Rightarrow> string \<Rightarrow> error + state" where
  "scanDirectory_try x w dirPath ty =
     (if \<not> fs_access (disk w) dirPath then Inr w
      else case readdir (disk w) dirPath of
             Inl e \<Rightarrow> Inl e
           | Inr names \<Rightarrow> Inr (scan_files x w dirPath ty names))"

text \<open>The method \<open>_scanDirectory\<close>: an error of the listing is caught and logged.\<close>

definition scanDirectory :: "extern \<Rightarrow> state \<Rightarrow> string \<Rightarrow> string \<Rightarrow> state" where
  "scanDirectory x w dirPath ty =
     (case scanDirectory_try x w dirPath ty of Inl e \<Rightarrow> w | Inr w' \<Rightarrow> w')"

text \<open>\<open>initialize\<close>: whatever its \<open>try\<close> block raises is logged and raised again.\<close>

definition initialize :: "extern \<Rightarrow> state \<Rightarrow> string \<Rightarrow> error + state" where
  "initialize x w contentPath =
     (let blogPath = path_join contentPath ''blog'';
          w1 = scanDirectory x w blogPath ''blog'';
          pagesPath = path_join contentPath ''pages'';
          w2 = scanDirectory x w1 pagesPath ''page''
      in Inr w2)"

text \<open>The front matter that an item holds, as it reads in a cache.\<close>

definition metadata_of :: "cache \<Rightarrow> content_item \<Rightarrow> metadata" where
  "metadata_of c item = deref c (metadata item)"

subsection \<open>Sorted views\<close>

text \<open>\<open>ToNumber\<close> of a value; \<open>None\<close> is NaN.\<close>

fun to_number :: "extern \<Rightarrow> fmval \<Rightarrow> int option" where
  "to_number x VNull = Some 0"
| "to_number x (VBool b) = Some (if b then 1 else 0)"
| "to_number x (VNum n) = Some n"
| "to_number x (VStr s) = StringToNumber x s"
| "to_number x (VDate t) = Some t"
| "to_number x (VArr vs) = StringToNumber x (js_String x (VArr vs))"
| "to_number x (VObj kvs) = StringToNumber x (js_String x (VObj kvs))"

text \<open>\<open>a - b\<close> on numbers: NaN when an operand is.\<close>

fun num_sub :: "int option \<Rightarrow> int option \<Rightarrow> int option" where
  "num_sub (Some a) (Some b) = Some (a - b)"
| "num_sub _ _ = None"

text \<open>
  \<open>a.order !== b.order\<close> for two items of the index. Primitive values are compared by
  value. Two orders that are objects (a date, an array, a mapping) are the same object
  only when the two items took them from one data object, that is, when both files had
  the same text; an assignment to the order of that data object between the two
  indexings is left out of account.
\<close>

definition order_differs :: "content_item \<Rightarrow> content_item \<Rightarrow> bool" where
  "order_differs a b \<longleftrightarrow>
     (if is_object (order a) \<and> is_object (order b)
      then \<not> (metadata a = metadata b \<and> metadata a \<noteq> Fresh \<and> order a = order b)
      else order a \<noteq> order b)"

text \<open>The comparison function that both views pass to \<open>sort\<close>.\<close>

definition compare_items :: "extern \<Rightarrow> content_item \<Rightarrow> content_item \<Rightarrow> int option" where
  "compare_items x a b =
     (if order_differs a b
      then num_sub (to_number x (order a)) (to_number x (order b))
      else num_sub (date b) (date a))"

text \<open>
  \<open>Array.prototype.sort\<close> is a stable sort that reads a NaN result of the comparison
  function as \<open>+0\<close>. For a comparison function that is a consistent ordering every
  stable sort returns the same sequence, the one of this insertion sort, in which an
  element moves behind another only when the comparison of the two is positive. For a
  comparison function that is not consistent (one that returns NaN for some pairs and
  not for others) the result depends on the engine, and this sort is one of the
  permitted results.
\<close>

definition goes_after :: "('a \<Rightarrow> 'a \<Rightarrow> int option) \<Rightarrow> 'a \<Rightarrow> 'a \<Rightarrow> bool" where
  "goes_after cmp a b \<longleftrightarrow> (case cmp a b of None \<Rightarrow> False | Some v \<Rightarrow> 0 < v)"

fun sort_insert :: "('a \<Rightarrow> 'a \<Rightarrow> int option) \<Rightarrow> 'a \<Rightarrow> 'a list \<Rightarrow> 'a list" where
  "sort_insert cmp a [] = [a]"
| "sort_insert cmp a (b # bs) =
     (if goes_after cmp a b then b # sort_insert cmp a bs else a # b # bs)"

fun array_sort :: "('a \<Rightarrow> 'a \<Rightarrow> int option) \<Rightarrow> 'a list \<Rightarrow> 'a list" where
  "array_sort cmp [] = []"
| "array_sort cmp (a # as) = sort_insert cmp a (array_sort cmp as)"

text \<open>
  The sort of V8 begins with the longest run at the start of the array: when the second
  element does not compare below the first, the run goes on as long as no element
  compares below its predecessor. A run that is the whole array is the result.
\<close>

definition compares_below :: "('a \<Rightarrow> 'a \<Rightarrow> int option) \<Rightarrow> 'a \<Rightarrow> 'a \<Rightarrow> bool" where
  "compares_below cmp a b \<longleftrightarrow> (case cmp a b of None \<Rightarrow> False | Some v \<Rightarrow> v < 0)"

fun one_run :: "('a \<Rightarrow> 'a \<Rightarrow> int option) \<Rightarrow> 'a list \<Rightarrow> bool" where
  "one_run cmp (a # b # rest) = (\<not> compares_below cmp b a \<and> one_run cmp (b # rest))"
| "one_run cmp _ = True"

definition getBlogEntries :: "extern \<Rightarrow> index \<Rightarrow> content_item list" where
  "getBlogEntries x idx =
     (let blogEntries = filter (\<lambda>item. type item = VStr ''blog'' \<and> published item) (index_values idx)
      in array_sort (compare_items x) blogEntries)"

definition getPages :: "extern \<Rightarrow> index \<Rightarrow> content_item list" where
  "getPages x idx =
     (let pages = filter (\<lambda>item. type item = VStr ''page'' \<and> published item) (index_values idx)
      in array_sort (compare_items x) pages)"

text \<open>\<open>getBySlug\<close>: \<open>None\<close> is \<open>null\<close>.\<close>

definition getBySlug :: "index \<Rightarrow> string \<Rightarrow> content_item option" where
  "getBySlug idx s = index_get idx s"

subsection \<open>The ordering of a view\<close>

text \<open>
  The ordering that the two views are documented to return: ascending by order, and for
  equal order the newer date first. Items whose order is not a number or whose date is
  invalid are not constrained by it.
\<close>

definition in_view_order :: "content_item \<Rightarrow> content_item \<Rightarrow> bool" where
  "in_view_order a b \<longleftrightarrow>
     (case (order a, order b, date a, date b) of
        (VNum m, VNum n, Some s, Some t) \<Rightarrow> m < n \<or> (m = n \<and> t \<le> s)
      | _ \<Rightarrow> True)"

definition sortable :: "content_item \<Rightarrow> bool" where
  "sortable a \<longleftrightarrow> (case (order a, date a) of (VNum m, Some s) \<Rightarrow> True | _ \<Rightarrow> False)"

subsection \<open>Updates\<close>

text \<open>\<open>reindex\<close>: the lookup before the call only chooses the log line.\<close>

definition reindex :: "extern \<Rightarrow> state \<Rightarrow> string \<Rightarrow> state" where
  "reindex x w path =
     (let ty = (if str_includes path ''/blog/'' then ''blog'' else ''page'')
      in indexFile x w path (Some ty))"

text \<open>\<open>removeFromIndex\<close>, which reads and writes the index alone.\<close>

definition removeFromIndex :: "index \<Rightarrow> string \<Rightarrow> index" where
  "removeFromIndex idx path =
     (let filename = basename path ''.md'';
          slug = generateSlug filename
      in if index_has idx slug then index_delete idx slug else idx)"

subsection \<open>File watcher\<close>

text \<open>The events of the watcher and what its callbacks do.\<close>

datatype watch_event = Add string | Change string | Unlink string

fun on_watch_event :: "extern \<Rightarrow> state \<Rightarrow> watch_event \<Rightarrow> state" where
  "on_watch_event x w (Add path) = reindex x w path"
| "on_watch_event x w (Change path) = reindex x w path"
| "on_watch_event x w (Unlink path) = w\<lparr> index := removeFromIndex (index w) path \<rparr>"

section \<open>Writing files\<close>

definition dirname :: "string \<Rightarrow> string" where
  "dirname p = rev (drop 1 (dropWhile (\<lambda>c. \<not> is_slash c) (rev p)))"

text \<open>\<open>fs.writeFile\<close> fails when the directory of the file is missing.\<close>

definition writeFile :: "filesystem \<Rightarrow> string \<Rightarrow> string \<Rightarrow> error + filesystem" where
  "writeFile fs p text =
     (case dirs fs (dirname p) of
        None \<Rightarrow> Inl (ENOENT ''open'' p)
      | Some names \<Rightarrow>
          Inr (fs\<lparr> files := (files fs)(p \<mapsto> text),
                   dirs := (dirs fs)(dirname p \<mapsto>
                     (if last_component p \<in> set names then names
                      else names @ [last_component p])) \<rparr>))"

definition unlink :: "filesystem \<Rightarrow> string \<Rightarrow> error + filesystem" where
  "unlink fs p =
     (case files fs p of
        None \<Rightarrow> Inl (ENOENT ''unlink'' p)
      | Some text \<Rightarrow>
          Inr (fs\<lparr> files := (files fs)(p := None),
                   dirs := (case dirs fs (dirname p) of
                              None \<Rightarrow> dirs fs
                            | Some names \<Rightarrow>
                                (dirs fs)(dirname p \<mapsto> removeAll (last_component p) names)) \<rparr>))"

section \<open>Front matter as text\<close>

text \<open>\<open>value.replace(/"/g, '\\"')\<close>: a backslash goes before every double quote.\<close>

definition escape_quotes :: "string \<Rightarrow> string" where
  "escape_quotes s = concat (map (\<lambda>c. if c = CHR 0x22 then [CHR 0x5C, CHR 0x22] else [c]) s)"

text \<open>
  One line of the rewritten front matter, by the three cases of the loop: a string goes
  between double quotes, a \<open>Date\<close> is written as its day, and for every other value the
  template literal writes \<open>String(value)\<close>.
\<close>

definition fm_line :: "extern \<Rightarrow> string \<times> fmval \<Rightarrow> string" where
  "fm_line x kv =
     (case kv of (key, v) \<Rightarrow>
        (case v of
           VStr s \<Rightarrow> key @ '': '' @ [CHR 0x22] @ escape_quotes s @ [CHR 0x22]
         | VDate t \<Rightarrow> key @ '': '' @ iso_date t
         | _ \<Rightarrow> key @ '': '' @ js_String x v))"

definition frontMatterLines :: "extern \<Rightarrow> metadata \<Rightarrow> string list" where
  "frontMatterLines x md = [''---''] @ map (fm_line x) md @ [''---'', []]"

text \<open>\<open>lines.join('\n')\<close>\<close>

fun join_lines :: "string list \<Rightarrow> string" where
  "join_lines [] = []"
| "join_lines [l] = l"
| "join_lines (l # ls) = l @ [CHR 0x0A] @ join_lines ls"

text \<open>\<open>errors.join(', ')\<close>\<close>

fun join_comma :: "string list \<Rightarrow> string" where
  "join_comma [] = []"
| "join_comma [l] = l"
| "join_comma (l # ls) = l @ '', '' @ join_comma ls"

text \<open>White space as \<open>\s\<close> and \<open>trim\<close> see it, among the code units below 256.\<close>

definition is_space :: "char \<Rightarrow> bool" where
  "is_space c \<longleftrightarrow> (of_char c :: nat) \<in> {9, 10, 11, 12, 13, 32, 160}"

definition trim :: "string \<Rightarrow> string" where
  "trim s = rev (dropWhile is_space (rev (dropWhile is_space s)))"

section \<open>Validation\<close>

text \<open>
  \<open>validate\<close> returns the list of its error messages, and the content is valid when the
  list is empty; its call of \<open>matter\<close> goes through the cache.
\<close>

definition validate :: "extern \<Rightarrow> cache \<Rightarrow> string \<Rightarrow> string list \<times> cache" where
  "validate x c content =
     (if content = [] \<or> trim content = [] then ([''Content is empty''], c)
      else case matter x c content of
        (Inl e, c') \<Rightarrow> ([''Invalid front matter YAML: '' @ message e], c')
      | (Inr (md, body, r), c') \<Rightarrow>
          ((if md = [] then [''Front matter is missing or empty''] else [])
           @ (case get_prop md ''title'' of
                Some (VStr t) \<Rightarrow>
                  if t = []
                  then [''Front matter must include a '' @ [CHR 0x22] @ ''title'' @ [CHR 0x22] @ '' field'']
                  else []
              | _ \<Rightarrow> [''Front matter must include a '' @ [CHR 0x22] @ ''title'' @ [CHR 0x22] @ '' field''])
           @ (if get_prop md ''type'' = Some (VStr ''blog'') \<or> get_prop md ''type'' = Some (VStr ''page'')
              then []
              else [''Front matter must include a '' @ [CHR 0x22] @ ''type'' @ [CHR 0x22]
                    @ '' field with value '' @ [CHR 0x22] @ ''blog'' @ [CHR 0x22]
                    @ '' or '' @ [CHR 0x22] @ ''page'' @ [CHR 0x22]])
           @ (if body = [] \<or> trim body = [] then [''Markdown content is empty''] else [])
           @ (case md_render x body of
                Inl e \<Rightarrow> [''Markdown syntax error: '' @ message e]
              | Inr html \<Rightarrow> []),
           c'))"

section \<open>Admin handlers\<close>

record config =
  contentPath :: string
  blogDir :: string
  pagesDir :: string

text \<open>
  The responses: a rendered template with its error, a redirect, a plain text with its
  status, and the JSON bodies with their status and fields.
\<close>

datatype response =
    Render string "string option"
  | Redirect string
  | Send nat string
  | Json nat bool string
  | JsonFailure nat string string
  | JsonDetails nat string "(string \<times> string) list"
  | JsonUpdated string nat

text \<open>
  What a handler does to the world, in the order in which it does it. \<open>Reindex\<close> and
  \<open>RemoveFromIndex\<close> stand for the calls of the indexer's two update methods.
\<close>

datatype effect =
    WriteFile string string
  | UnlinkFile string
  | Reindex string
  | RemoveFromIndex string
  | Respond response

text \<open>The fields of a submitted form; \<open>None\<close> is a field that is missing.\<close>

record form =
  f_title :: "string option"
  f_content :: "string option"
  f_type :: "string option"

definition falsy :: "string option \<Rightarrow> bool" where
  "falsy v \<longleftrightarrow> v = None \<or> v = Some []"

text \<open>Every maximal run of characters of the class \<open>p\<close> becomes one hyphen.\<close>

function collapse_runs :: "(char \<Rightarrow> bool) \<Rightarrow> string \<Rightarrow> string" where
  "collapse_runs p [] = []"
| "collapse_runs p (c # cs) =
     (if p c then CHR ''-'' # collapse_runs p (dropWhile p cs)
      else c # collapse_runs p cs)"
  by pat_completeness auto
termination
  by (relation "measure (\<lambda>(p, s). length s)") (auto simp: less_Suc_eq_le length_dropWhile_le)

text \<open>The slug that the creation handler makes of a title.\<close>

definition title_slug :: "string \<Rightarrow> string" where
  "title_slug t =
     trim (collapse_runs is_hyphen (collapse_runs is_space
       (filter (\<lambda>c. is_az09 c \<or> is_space c \<or> is_hyphen c) (toLowerCase t))))"

text \<open>
  The creation handler; \<open>now\<close> is the time value of its \<open>new Date()\<close> and \<open>stamp\<close> the
  \<open>Date.now()\<close> that it reads afterwards for the order of a post. The validation goes
  through the cache.
\<close>

definition handler_adminCreatePost ::
  "extern \<Rightarrow> config \<Rightarrow> int \<Rightarrow> int \<Rightarrow> state \<Rightarrow> form \<Rightarrow> effect list \<times> state" where
  "handler_adminCreatePost x cfg now stamp w body =
     (if falsy (f_title body) \<or> falsy (f_content body) \<or> falsy (f_type body)
      then ([Respond (Render ''create'' (Some ''All fields are required''))], w)
      else let ttl = the (f_title body); content = the (f_content body); ty = the (f_type body) in
      if ty \<noteq> ''blog'' \<and> ty \<noteq> ''page''
      then ([Respond (Render ''create'' (Some ''Invalid content type''))], w)
      else let slug = title_slug ttl in
      if slug = []
      then ([Respond (Render ''create''
              (Some ''Title must contain at least one alphanumeric character''))], w)
      else let dateStr = iso_date now;
               filename0 = (if ty = ''blog'' then dateStr @ ''-'' @ slug @ ''.md'' else slug @ ''.md'');
               filename1 = sanitizeFilename x filename0;
               filename = (if endsWith filename1 ''.md'' then filename1 else filename1 @ ''.md'');
               targetDir = (if ty = ''blog'' then path_join (contentPath cfg) (blogDir cfg)
                            else path_join (contentPath cfg) (pagesDir cfg));
               path = path_join targetDir filename in
      if \<not> isPathInContentDirectory x path (contentPath cfg)
      then ([Respond (Render ''create'' (Some ''Invalid file path''))], w)
      else if fs_access (disk w) path
      then ([Respond (Render ''create'' (Some (''A '' @ ty @ '' with this title already exists'')))], w)
      else let markdownContent =
                 join_lines
                   ([''---'',
                     ''title: '' @ [CHR 0x22] @ ttl @ [CHR 0x22],
                     ''date: '' @ dateStr,
                     ''type: '' @ ty]
                    @ (if ty = ''blog'' then [''order: '' @ number_text x stamp] else [])
                    @ [''published: true'', ''---'', [], content, []])
      in case validate x (cache w) markdownContent of (errors, c') \<Rightarrow>
      if errors \<noteq> []
      then ([Respond (Render ''create'' (Some (''Validation failed: '' @ join_comma errors)))],
            w\<lparr> cache := c' \<rparr>)
      else case writeFile (disk w) path markdownContent of
             Inl e \<Rightarrow>
               ([Respond (Render ''create'' (Some (''Failed to create content: '' @ message e)))],
                w\<lparr> cache := c' \<rparr>)
           | Inr fs' \<Rightarrow>
               ([WriteFile path markdownContent, Respond (Redirect ''/admin'')],
                w\<lparr> disk := fs', cache := c' \<rparr>))"

text \<open>
  The edit handler. Each of its three branches after the two checks of the item begins
  with the parse of the file, which is written once here; the new front matter is made
  of a copy of the parsed one.
\<close>

definition handler_adminEditPost ::
  "extern \<Rightarrow> config \<Rightarrow> state \<Rightarrow> string \<Rightarrow> form \<Rightarrow> effect list \<times> state" where
  "handler_adminEditPost x cfg w req_slug body =
     (case getBySlug (index w) req_slug of
        None \<Rightarrow> ([Respond (Send 404 ''Content not found'')], w)
      | Some contentItem \<Rightarrow>
          if \<not> isPathInContentDirectory x (filePath contentItem) (contentPath cfg)
          then ([Respond (Send 403 ''Forbidden'')], w)
          else case parseFile x (disk w) (cache w) (filePath contentItem) of
            (Inl e, c1) \<Rightarrow>
              ([Respond (Render ''edit'' (Some (''Failed to update content: '' @ message e)))],
               w\<lparr> cache := c1 \<rparr>)
          | (Inr (existingMetadata, old_body, r), c1) \<Rightarrow>
              if falsy (f_title body) \<or> falsy (f_content body) \<or> falsy (f_type body)
              then ([Respond (Render ''edit'' (Some ''All fields are required''))], w\<lparr> cache := c1 \<rparr>)
              else let ttl = the (f_title body); content = the (f_content body);
                       ty = the (f_type body) in
              if ty \<noteq> ''blog'' \<and> ty \<noteq> ''page''
              then ([Respond (Render ''edit'' (Some ''Invalid content type''))], w\<lparr> cache := c1 \<rparr>)
              else let updatedMetadata =
                         AList.update ''type'' (VStr ty)
                           (AList.update ''title'' (VStr ttl) existingMetadata);
                       markdownContent = join_lines (frontMatterLines x updatedMetadata) @ content
              in case validate x c1 markdownContent of (errors, c2) \<Rightarrow>
              if errors \<noteq> []
              then ([Respond (Render ''edit''
                      (Some (''Validation failed: '' @ join_comma errors)))], w\<lparr> cache := c2 \<rparr>)
              else case writeFile (disk w) (filePath contentItem) markdownContent of
                     Inl e \<Rightarrow>
                       ([Respond (Render ''edit''
                           (Some (''Failed to update content: '' @ message e)))], w\<lparr> cache := c2 \<rparr>)
                   | Inr fs' \<Rightarrow>
                       ([WriteFile (filePath contentItem) markdownContent,
                         Respond (Redirect ''/admin'')], w\<lparr> disk := fs', cache := c2 \<rparr>))"

definition handler_adminDelete ::
  "extern \<Rightarrow> config \<Rightarrow> state \<Rightarrow> string \<Rightarrow> effect list \<times> state" where
  "handler_adminDelete x cfg w req_slug =
     (case getBySlug (index w) req_slug of
        None \<Rightarrow> ([Respond (Json 404 False ''Content not found'')], w)
      | Some contentItem \<Rightarrow>
          if \<not> isPathInContentDirectory x (filePath contentItem) (contentPath cfg)
          then ([Respond (Json 403 False ''Forbidden'')], w)
          else case unlink (disk w) (filePath contentItem) of
                 Inl e \<Rightarrow>
                   ([Respond (JsonFailure 500 ''Failed to delete content'' (message e))], w)
               | Inr fs' \<Rightarrow>
                   ([UnlinkFile (filePath contentItem),
                     Respond (Json 200 True ''Content deleted successfully'')], w\<lparr> disk := fs' \<rparr>))"

text \<open>
  One item of a reorder request: the outcome (\<open>None\<close> is success, otherwise the message
  of the error), the file written, and the state afterwards. The new order is assigned
  to the data object that the parse returned, which is the object of the cache and of
  every item indexed from the same text; the lines are then made of that object.
\<close>

definition reorder_item ::
  "extern \<Rightarrow> config \<Rightarrow> state \<Rightarrow> string \<times> fmval \<Rightarrow> string option \<times> effect list \<times> state" where
  "reorder_item x cfg w item =
     (case item of (req_slug, ord) \<Rightarrow>
        (case getBySlug (index w) req_slug of
           None \<Rightarrow> (Some ''Content not found'', [], w)
         | Some contentItem \<Rightarrow>
             if \<not> isPathInContentDirectory x (filePath contentItem) (contentPath cfg)
             then (Some ''Forbidden'', [], w)
             else case readFile (disk w) (filePath contentItem) of
               Inl e \<Rightarrow> (Some (message e), [], w)
             | Inr fileContent \<Rightarrow>
                 (case parseFile x (disk w) (cache w) (filePath contentItem) of
                    (Inl e, c1) \<Rightarrow> (Some (message e), [], w\<lparr> cache := c1 \<rparr>)
                  | (Inr (md, content, r), c1) \<Rightarrow>
                      let c2 = assign c1 r ''order'' ord;
                          md' = AList.update ''order'' ord md;
                          updatedContent = join_lines (frontMatterLines x md') @ content
                      in case writeFile (disk w) (filePath contentItem) updatedContent of
                           Inl e \<Rightarrow> (Some (message e), [], w\<lparr> cache := c2 \<rparr>)
                         | Inr fs' \<Rightarrow>
                             (None, [WriteFile (filePath contentItem) updatedContent],
                              w\<lparr> disk := fs', cache := c2 \<rparr>))))"

text \<open>
  The items of a request, taken one after the other. The source starts them together and
  awaits them all; every item looks its slug up in the index before the first file is
  read, and no item changes the index.
\<close>

fun reorder_items ::
  "extern \<Rightarrow> config \<Rightarrow> state \<Rightarrow> (string \<times> fmval) list
     \<Rightarrow> (string \<times> string option) list \<times> effect list \<times> state" where
  "reorder_items x cfg w [] = ([], [], w)"
| "reorder_items x cfg w (item # rest) =
     (case reorder_item x cfg w item of
        (res, effs, w1) \<Rightarrow>
          (case reorder_items x cfg w1 rest of
             (results, effs', w2) \<Rightarrow> ((fst item, res) # results, effs @ effs', w2)))"

text \<open>\<open>items\<close> is \<open>None\<close> when the request body has no array of that name.\<close>

definition handler_adminReorder ::
  "extern \<Rightarrow> config \<Rightarrow> state \<Rightarrow> (string \<times> fmval) list option \<Rightarrow> effect list \<times> state" where
  "handler_adminReorder x cfg w items =
     (case items of
        None \<Rightarrow> ([Respond (Json 400 False ''Invalid request: items array is required'')], w)
      | Some its \<Rightarrow>
          (case reorder_items x cfg w its of
             (results, effs, w') \<Rightarrow>
               let failures = filter (\<lambda>r. snd r \<noteq> None) results in
               if failures \<noteq> []
               then (effs @ [Respond (JsonDetails 500 ''Some items failed to update''
                                (map (\<lambda>r. (fst r, the (snd r))) failures))], w')
               else (effs @ [Respond (JsonUpdated ''Order updated successfully'' (length results))],
                     w')))"





section \<open>A small site\<close>

text \<open>
  Files of a small site, with what the parser of gray-matter returns for each of them.
  The text of \<open>broken.md\<close> has no valid YAML between its delimiters. The text of
  \<open>tagged.md\<close> has the front matter that the README of the repository gives as its
  example, with its two tags; read as YAML, the line \<open>tags: tag1,tag2\<close> is one string.
\<close>

definition text_a :: string where
  "text_a = join_lines [''---'', ''title: A'', ''date: 2025-11-10'', ''type: blog'', ''order: 3'', ''---'', ''First'']"

definition text_b :: string where
  "text_b = join_lines [''---'', ''title: B'', ''date: 2025-11-11'', ''type: blog'', ''order: 1'', ''---'', ''Second'']"

definition text_c :: string where
  "text_c = join_lines [''---'', ''title: C'', ''date: 2025-11-12'', ''type: blog'', ''order: 1'', ''---'', ''Third'']"

definition text_broken :: string where
  "text_broken = join_lines [''---'', ''title: [unclosed'', ''---'', ''Broken'']"

definition text_about :: string where
  "text_about = join_lines [''---'', ''title: About'', ''type: page'', ''---'', ''About us'']"

definition text_about_post :: string where
  "text_about_post = join_lines [''---'', ''title: About this blog'', ''type: blog'', ''---'', ''A post'']"

definition text_soon :: string where
  "text_soon = join_lines [''---'', ''title: Soon'', ''date: soon'', ''type: blog'', ''order: 1'', ''---'', ''Later'']"

definition text_untyped :: string where
  "text_untyped = join_lines [''---'', ''title: Untyped'', ''type: '' @ [CHR 0x22, CHR 0x22], ''---'', ''Body'']"

definition text_cased :: string where
  "text_cased = join_lines [''---'', ''title: Cased'', ''type: Blog'', ''---'', ''Body'']"

definition text_hidden :: string where
  "text_hidden = join_lines [''---'', ''title: Hidden'', ''type: blog'', ''published: false'', ''---'', ''Body'']"

definition text_tagged :: string where
  "text_tagged = join_lines
     [''---'',
      ''title: '' @ [CHR 0x22] @ ''Post Title'' @ [CHR 0x22],
      ''date: 2025-11-13'',
      ''type: blog'',
      ''order: 1'',
      ''published: true'',
      ''tags: ['' @ [CHR 0x22] @ ''tag1'' @ [CHR 0x22] @ '', '' @ [CHR 0x22] @ ''tag2'' @ [CHR 0x22] @ '']'',
      ''---'',
      ''Body'']"

text \<open>The text that the reorder handler writes for \<open>tagged.md\<close> and the order 5.\<close>

definition text_tagged_reordered :: string where
  "text_tagged_reordered =
     ''---'' @ [CHR 0x0A]
     @ ''title: '' @ [CHR 0x22] @ ''Post Title'' @ [CHR 0x22] @ [CHR 0x0A]
     @ ''date: 2025-11-13'' @ [CHR 0x0A]
     @ ''type: '' @ [CHR 0x22] @ ''blog'' @ [CHR 0x22] @ [CHR 0x0A]
     @ ''order: 5'' @ [CHR 0x0A]
     @ ''published: true'' @ [CHR 0x0A]
     @ ''tags: tag1,tag2'' @ [CHR 0x0A]
     @ ''---'' @ [CHR 0x0A]
     @ ''Body''"

definition site_parse :: "string \<Rightarrow> error + (metadata \<times> string)" where
  "site_parse text =
     (case map_of
        [(text_a, ([(''title'', VStr ''A''), (''date'', VDate 1762732800000),
                    (''type'', VStr ''blog''), (''order'', VNum 3)], ''First'')),
         (text_b, ([(''title'', VStr ''B''), (''date'', VDate 1762819200000),
                    (''type'', VStr ''blog''), (''order'', VNum 1)], ''Second'')),
         (text_c, ([(''title'', VStr ''C''), (''date'', VDate 1762905600000),
                    (''type'', VStr ''blog''), (''order'', VNum 1)], ''Third'')),
         (text_about, ([(''title'', VStr ''About''), (''type'', VStr ''page'')], ''About us'')),
         (text_about_post, ([(''title'', VStr ''About this blog''), (''type'', VStr ''blog'')],
                            ''A post'')),
         (text_soon, ([(''title'', VStr ''Soon''), (''date'', VStr ''soon''),
                       (''type'', VStr ''blog''), (''order'', VNum 1)], ''Later'')),
         (text_untyped, ([(''title'', VStr ''Untyped''), (''type'', VStr [])], ''Body'')),
         (text_cased, ([(''title'', VStr ''Cased''), (''type'', VStr ''Blog'')], ''Body'')),
         (text_hidden, ([(''title'', VStr ''Hidden''), (''type'', VStr ''blog''),
                         (''published'', VBool False)], ''Body'')),
         (text_tagged, ([(''title'', VStr ''Post Title''), (''date'', VDate 1762992000000),
                         (''type'', VStr ''blog''), (''order'', VNum 1),
                         (''published'', VBool True),
                         (''tags'', VArr [VStr ''tag1'', VStr ''tag2''])], ''Body'')),
         (text_tagged_reordered,
            ([(''title'', VStr ''Post Title''), (''date'', VDate 1762992000000),
              (''type'', VStr ''blog''), (''order'', VNum 5),
              (''published'', VBool True), (''tags'', VStr ''tag1,tag2'')], ''Body''))] text of
        Some parsed \<Rightarrow> Inr parsed
      | None \<Rightarrow> Inl (YAMLException ''unexpected end of the stream within a flow collection''))"

text \<open>
  The built-in conversions give NaN for the texts of this site that are neither dates
  nor numbers; the clock stands at one instant of 2025-11-13. No number of the site
  reaches 1e21, and no date of the site is turned into text other than by its day.
\<close>

definition site_x :: extern where
  "site_x = \<lparr> parseMatter = site_parse, md_render = (\<lambda>s. Inr s),
     Date_parse = (\<lambda>s. None), StringToNumber = (\<lambda>s. None),
     NumberToString = (\<lambda>n. []), Date_toString = (\<lambda>t. []),
     clock = (\<lambda>p. 1763000000000),
     sanitizeFilename = (\<lambda>s. s), isPathInContentDirectory = (\<lambda>p root. True) \<rparr>"

definition site_cfg :: config where
  "site_cfg = \<lparr> contentPath = ''content'', blogDir = ''blog'', pagesDir = ''pages'' \<rparr>"

definition site_fs :: filesystem where
  "site_fs = \<lparr>
     dirs = map_of [(''content/blog'', [''a.md'', ''b.md'', ''broken.md'', ''c.md'', ''notes.txt'']),
                    (''content/pages'', [''about.md''])],
     files = map_of [(''content/blog/a.md'', text_a), (''content/blog/b.md'', text_b),
                     (''content/blog/broken.md'', text_broken), (''content/blog/c.md'', text_c),
                     (''content/blog/notes.txt'', ''notes''),
                     (''content/pages/about.md'', text_about)] \<rparr>"

text \<open>A site with a post and a page of the same file name.\<close>

definition twin_fs :: filesystem where
  "twin_fs = \<lparr>
     dirs = map_of [(''content/blog'', [''about.md'']), (''content/pages'', [''about.md''])],
     files = map_of [(''content/blog/about.md'', text_about_post),
                     (''content/pages/about.md'', text_about)] \<rparr>"


text \<open>A site with three posts of equal order, the second with a date that is no date.\<close>

definition dated_fs :: filesystem where
  "dated_fs = \<lparr>
     dirs = map_of [(''content/blog'', [''a.md'', ''soon.md'', ''c.md'']), (''content/pages'', [])],
     files = map_of [(''content/blog/a.md'', text_b), (''content/blog/soon.md'', text_soon),
                     (''content/blog/c.md'', text_c)] \<rparr>"

text \<open>
  A site with a post whose type is the empty string, a post of type \<open>Blog\<close> and an
  unpublished post.
\<close>

definition typed_fs :: filesystem where
  "typed_fs = \<lparr>
     dirs = map_of [(''content/blog'', [''untyped.md'', ''cased.md'', ''hidden.md'']),
                    (''content/pages'', [])],
     files = map_of [(''content/blog/untyped.md'', text_untyped),
                     (''content/blog/cased.md'', text_cased),
                     (''content/blog/hidden.md'', text_hidden)] \<rparr>"

text \<open>A site with the post of the README and a second post.\<close>

definition tagged_fs :: filesystem where
  "tagged_fs = \<lparr>
     dirs = map_of [(''content/blog'', [''tagged.md'', ''a.md'']), (''content/pages'', [])],
     files = map_of [(''content/blog/tagged.md'', text_tagged), (''content/blog/a.md'', text_a)] \<rparr>"

text \<open>The state in which the server starts on a disk: nothing parsed, nothing indexed.\<close>

definition start :: "filesystem \<Rightarrow> state" where
  "start fs = \<lparr> disk = fs, cache = Map.empty, index = [] \<rparr>"





text \<open>
  The parse of the file \<open>p\<close> succeeds in the state \<open>w\<close>: this depends on the cache, in
  which a text that failed to parse once has an entry with empty data.
\<close>

definition parses :: "extern \<Rightarrow> state \<Rightarrow> string \<Rightarrow> bool" where
  "parses x w p \<longleftrightarrow>
     (case fst (parseFile x (disk w) (cache w) p) of Inl e \<Rightarrow> False | Inr r \<Rightarrow> True)"

definition slug_of_path :: "string \<Rightarrow> string" where
  "slug_of_path p = generateSlug (basename p ''.md'')"

text \<open>The small sites after the scan at startup, and their indexes.\<close>

definition state_after_scan :: "filesystem \<Rightarrow> state" where
  "state_after_scan fs =
     (case initialize site_x (start fs) ''content'' of Inl e \<Rightarrow> start fs | Inr w \<Rightarrow> w)"

definition index_after_scan :: "filesystem \<Rightarrow> index" where
  "index_after_scan fs = index (state_after_scan fs)"

text \<open>
  An item stored under the slug of the path \<open>p\<close> with the type \<open>v\<close> and listed by
  neither view.
\<close>

definition stored_unlisted :: "extern \<Rightarrow> fmval \<Rightarrow> string \<Rightarrow> index \<Rightarrow> bool" where
  "stored_unlisted x v p idx \<longleftrightarrow>
     (\<exists>item. getBySlug idx (slug_of_path p) = Some item \<and> type item = v \<and> filePath item = p \<and>
        item \<notin> set (getBlogEntries x idx) \<and> item \<notin> set (getPages x idx))"

section \<open>Properties of the slug generator\<close>

lemma az09_not_hyphen: "is_az09 c \<Longrightarrow> \<not> is_hyphen c"
  by (auto simp: is_az09_def is_lower_def is_digit_def is_hyphen_def)

lemma toLowerChar_az09: "is_az09 c \<Longrightarrow> toLowerChar c = c"
  by (auto simp: is_az09_def is_lower_def is_digit_def toLowerChar_def Let_def)

lemma toLowerChar_hyphen: "is_hyphen c \<Longrightarrow> toLowerChar c = c"
  by (simp add: is_hyphen_def toLowerChar_def)

lemma replace_runs_hd:
  "s \<noteq> [] \<Longrightarrow> is_az09 (hd s) \<Longrightarrow> hd (replace_runs s) = hd s \<and> replace_runs s \<noteq> []"
  by (cases s) auto

lemma slug_shaped_replace_runs: "slug_shaped (replace_runs s)"
proof (induction s rule: replace_runs.induct)
  case 1
  show ?case by (simp add: slug_shaped_def)
next
  case (2 c cs)
  show ?case
  proof (cases "is_az09 c")
    case True
    with 2 show ?thesis
      by (auto simp: slug_shaped_def successively_Cons az09_not_hyphen hyphen_pair_def)
  next
    case False
    let ?r = "dropWhile (\<lambda>d. \<not> is_az09 d) cs"
    have sh: "slug_shaped (replace_runs ?r)" using 2 False by simp
    have "replace_runs ?r = [] \<or> \<not> is_hyphen (hd (replace_runs ?r))"
    proof (cases "?r = []")
      case True
      then have "replace_runs ?r = []" by (simp only: replace_runs.simps)
      then show ?thesis by blast
    next
      case False
      then have "is_az09 (hd ?r)" using hd_dropWhile [of "\<lambda>d. \<not> is_az09 d" cs] by simp
      with False show ?thesis using replace_runs_hd [of ?r] by (simp add: az09_not_hyphen)
    qed
    with sh False show ?thesis
      by (auto simp: slug_shaped_def successively_Cons is_hyphen_def hyphen_pair_def)
  qed
qed

lemma slug_shaped_dropWhile: "slug_shaped t \<Longrightarrow> slug_shaped (dropWhile p t)"
proof -
  assume a: "slug_shaped t"
  have "t = takeWhile p t @ dropWhile p t" by simp
  then have "slug_shaped (takeWhile p t @ dropWhile p t)" using a by simp
  then have "successively (\<lambda>a b. \<not> hyphen_pair a b) (dropWhile p t)"
    unfolding slug_shaped_def successively_append_iff by blast
  moreover have "\<forall>c \<in> set (dropWhile p t). is_az09 c \<or> is_hyphen c"
    using a by (auto simp: slug_shaped_def dest: set_dropWhileD)
  ultimately show ?thesis by (simp add: slug_shaped_def)
qed

lemma slug_shaped_rev: "slug_shaped (rev t) \<longleftrightarrow> slug_shaped t"
proof -
  have "successively (\<lambda>x y. \<not> hyphen_pair y x) t
        \<longleftrightarrow> successively (\<lambda>a b. \<not> hyphen_pair a b) t"
    by (rule arg_cong [where f = "\<lambda>P. successively P t"]) (auto simp: fun_eq_iff hyphen_pair_def)
  then show ?thesis by (simp add: slug_shaped_def)
qed

lemma slug_shaped_trim: "slug_shaped t \<Longrightarrow> slug_shaped (trim_hyphens t)"
  by (simp add: trim_hyphens_def slug_shaped_rev slug_shaped_dropWhile)

lemma replace_runs_shaped: "slug_shaped t \<Longrightarrow> replace_runs t = t"
proof (induction t)
  case Nil
  show ?case by simp
next
  case (Cons c cs)
  then have sh: "slug_shaped cs"
    by (auto simp: slug_shaped_def successively_Cons)
  show ?case
  proof (cases "is_az09 c")
    case True
    with Cons sh show ?thesis by simp
  next
    case False
    with Cons.prems have c: "c = CHR ''-''" by (simp add: slug_shaped_def is_hyphen_def)
    have "cs = [] \<or> is_az09 (hd cs)"
      using Cons.prems c by (cases cs) (auto simp: slug_shaped_def is_hyphen_def hyphen_pair_def)
    then have "dropWhile (\<lambda>d. \<not> is_az09 d) cs = cs"
      by (simp add: dropWhile_eq_self_iff)
    with False c sh Cons.IH show ?thesis by simp
  qed
qed

lemma toLowerCase_shaped: "slug_shaped t \<Longrightarrow> toLowerCase t = t"
  unfolding toLowerCase_def
  by (rule map_idI) (auto simp: slug_shaped_def toLowerChar_az09 toLowerChar_hyphen)

lemma trimmed_trim_hyphens: "trimmed (trim_hyphens s)"
proof -
  let ?v = "dropWhile is_hyphen s"
  let ?w = "dropWhile is_hyphen (rev ?v)"
  have t: "trim_hyphens s = rev ?w" by (simp add: trim_hyphens_def)
  show ?thesis
  proof (cases "?w = []")
    case True
    with t show ?thesis by (simp only: trimmed_def rev.simps) simp
  next
    case False
    then have hw: "\<not> is_hyphen (hd ?w)" by (rule hd_dropWhile)
    have v: "?v \<noteq> []"
    proof
      assume "?v = []"
      then have "?w = []" by (simp only: rev.simps dropWhile.simps)
      with False show False by contradiction
    qed
    then have hv: "\<not> is_hyphen (hd ?v)" by (rule hd_dropWhile)
    have "rev ?v = takeWhile is_hyphen (rev ?v) @ ?w" by simp
    then have "last (rev ?v) = last ?w" using False by (metis last_appendR)
    then have "last ?w = hd ?v" using v by (simp add: last_rev)
    with hv hw False t show ?thesis
      by (simp add: trimmed_def hd_rev last_rev)
  qed
qed

lemma trim_hyphens_trimmed: "trimmed t \<Longrightarrow> trim_hyphens t = t"
proof (cases "t = []")
  case True
  then show ?thesis by (simp add: trim_hyphens_def)
next
  case False
  assume "trimmed t"
  with False have h: "\<not> is_hyphen (hd t)" and l: "\<not> is_hyphen (last t)"
    by (simp_all add: trimmed_def)
  from h False have "dropWhile is_hyphen t = t" by (simp add: dropWhile_eq_self_iff)
  moreover from l False have "dropWhile is_hyphen (rev t) = rev t"
    by (simp add: dropWhile_eq_self_iff hd_rev)
  ultimately show ?thesis by (simp add: trim_hyphens_def)
qed

lemma normalise_fixed: "slug_shaped t \<Longrightarrow> trimmed t \<Longrightarrow> normalise t = t"
  by (simp add: normalise_def toLowerCase_shaped replace_runs_shaped trim_hyphens_trimmed)

lemma generateSlug_shaped: "slug_shaped (generateSlug f)"
  by (simp add: generateSlug_def slug_shaped_trim slug_shaped_replace_runs)

lemma generateSlug_trimmed: "trimmed (generateSlug f)"
  by (simp add: generateSlug_def trimmed_trim_hyphens)

lemma match_prefix_split:
  "match_prefix ps s = Some rest \<Longrightarrow>
     \<exists>p. s = p @ rest \<and> length p = length ps \<and> (\<forall>i < length ps. (ps ! i) (p ! i))"
proof (induction ps s rule: match_prefix.induct)
  case (1 s)
  then show ?case by simp
next
  case (2 p ps)
  then show ?case by simp
next
  case (3 p ps c cs)
  then have pc: "p c" and m: "match_prefix ps cs = Some rest" by (auto split: if_splits)
  from 3 pc m obtain q where q: "cs = q @ rest" "length q = length ps"
      "\<forall>i < length ps. (ps ! i) (q ! i)" by auto
  have "\<forall>i < length (p # ps). ((p # ps) ! i) ((c # q) ! i)"
    using pc q(3) by (auto simp: nth_Cons split: nat.splits)
  with q show ?case by (intro exI [of _ "c # q"]) simp
qed

lemma strip_date_prefix_fixed:
  assumes sh: "slug_shaped t" and tr: "trimmed t"
  shows "slug_shaped (strip_date_prefix t) \<and> trimmed (strip_date_prefix t)"
proof (cases "match_prefix date_prefix t")
  case None
  with assms show ?thesis by (simp add: strip_date_prefix_def)
next
  case (Some r)
  then obtain p where p: "t = p @ r" "length p = length date_prefix"
      "\<forall>i < length date_prefix. (date_prefix ! i) (p ! i)"
    using match_prefix_split by blast
  have len: "length p = 11" using p(2) by (simp add: date_prefix_def)
  then have pne: "p \<noteq> []" by auto
  have "10 < length date_prefix" by (simp add: date_prefix_def)
  with p(3) have "(date_prefix ! 10) (p ! 10)" by blast
  moreover have "date_prefix ! 10 = is_hyphen" by (simp add: date_prefix_def)
  ultimately have "is_hyphen (p ! 10)" by simp
  moreover have "last p = p ! 10" using len pne by (simp add: last_conv_nth)
  ultimately have lp: "is_hyphen (last p)" by simp
  have spr: "slug_shaped (p @ r)" using sh p(1) by simp
  then have shr: "slug_shaped r"
    unfolding slug_shaped_def successively_append_iff by auto
  have "trimmed r"
  proof (cases "r = []")
    case True
    then show ?thesis by (simp add: trimmed_def)
  next
    case False
    have "\<not> hyphen_pair (last p) (hd r)"
      using spr pne False unfolding slug_shaped_def successively_append_iff by auto
    with lp have "\<not> is_hyphen (hd r)" by (simp add: hyphen_pair_def)
    moreover have "last t = last r" using p(1) False by simp
    then have "\<not> is_hyphen (last r)" using tr p(1) False by (auto simp: trimmed_def)
    ultimately show ?thesis by (simp add: trimmed_def)
  qed
  with shr Some show ?thesis by (simp add: strip_date_prefix_def)
qed

lemma generateSlug_twice: "generateSlug (generateSlug f) = strip_date_prefix (generateSlug f)"
proof -
  have "generateSlug (generateSlug f) = normalise (strip_date_prefix (generateSlug f))"
    by (simp add: generateSlug_def [of "generateSlug f"] normalise_def)
  also have "\<dots> = strip_date_prefix (generateSlug f)"
    using strip_date_prefix_fixed [OF generateSlug_shaped generateSlug_trimmed, of f]
    by (simp add: normalise_fixed)
  finally show ?thesis .
qed

text \<open>
  C3, as amended. The generator strips the date prefix, lowers the case, replaces the runs
  outside \<open>[a-z0-9]\<close> and trims the hyphens; it maps \<open>2025-11-13-My Post!\<close> to
  \<open>my-post\<close>. Applied to one of its own results it does nothing but strip a date prefix
  that the result begins with, so it is idempotent on every file name whose slug does not
  begin with \<open>YYYY-MM-DD-\<close>.
\<close>

theorem generateSlug_idempotent_unless_dated:
  "generateSlug f = trim_hyphens (replace_runs (toLowerCase (strip_date_prefix f))) \<and>
   generateSlug (generateSlug f) = strip_date_prefix (generateSlug f) \<and>
   (match_prefix date_prefix (generateSlug f) = None \<longrightarrow>
      generateSlug (generateSlug f) = generateSlug f) \<and>
   generateSlug ''2025-11-13-My Post!'' = ''my-post''"
proof -
  have a: "generateSlug f = trim_hyphens (replace_runs (toLowerCase (strip_date_prefix f)))"
    by (simp add: generateSlug_def)
  have b: "generateSlug (generateSlug f) = strip_date_prefix (generateSlug f)"
    by (rule generateSlug_twice)
  have c: "match_prefix date_prefix (generateSlug f) = None \<longrightarrow>
      generateSlug (generateSlug f) = generateSlug f"
    by (simp add: b strip_date_prefix_def)
  have d: "generateSlug ''2025-11-13-My Post!'' = ''my-post''" by code_simp
  from a b c d show ?thesis by blast
qed

theorem generateSlug_idempotent_unless_dated_witness:
  "match_prefix date_prefix (generateSlug ''2025-11-13-My Post!'') = None \<and>
   generateSlug (generateSlug ''2025-11-13-My Post!'') = generateSlug ''2025-11-13-My Post!''"
proof -
  have h: "match_prefix date_prefix (generateSlug ''2025-11-13-My Post!'') = None" by code_simp
  with generateSlug_idempotent_unless_dated [of "''2025-11-13-My Post!''"] show ?thesis by blast
qed

text \<open>
  C3 as stated fails: a post titled with a date gets a file name with two date prefixes,
  and the slug of its slug is another string.
\<close>

theorem generateSlug_not_idempotent:
  "generateSlug ''2025-11-13-2025-11-14-recap'' = ''2025-11-14-recap'' \<and>
   generateSlug (generateSlug ''2025-11-13-2025-11-14-recap'') = ''recap''"
  by code_simp

section \<open>Properties of removal\<close>

lemma getBySlug_index_set:
  "getBySlug (index_set idx k v) k' = (if k' = k then Some v else getBySlug idx k')"
  by (simp add: getBySlug_def index_get_def index_set_def update_conv')

lemma removeFromIndex_filter:
  "removeFromIndex idx p = filter (\<lambda>e. fst e \<noteq> slug_of_path p) idx"
proof -
  have d: "AList.delete k idx = filter (\<lambda>e. fst e \<noteq> k) idx" for k
    by (induction idx) (auto simp: AList.delete_eq)
  have "\<not> index_has idx k \<Longrightarrow> filter (\<lambda>e. fst e \<noteq> k) idx = idx" for k
    by (auto simp: index_has_def map_of_eq_None_iff intro!: filter_True)
  then show ?thesis
    by (auto simp: removeFromIndex_def slug_of_path_def Let_def index_delete_def d)
qed

lemma getBySlug_filter_other:
  "k \<noteq> s \<Longrightarrow> getBySlug (filter (\<lambda>e. fst e \<noteq> s) idx) k = getBySlug idx k"
  by (induction idx) (auto simp: getBySlug_def index_get_def)

lemma getBySlug_filter_same:
  "getBySlug (filter (\<lambda>e. fst e \<noteq> s) idx) s = None"
  by (induction idx) (auto simp: getBySlug_def index_get_def)

lemma initialize_start:
  "initialize site_x (start fs) ''content'' = Inr (state_after_scan fs)"
  by (simp add: state_after_scan_def initialize_def Let_def)

text \<open>
  C8. \<open>removeFromIndex\<close> returns an index for every index and path (it has no failing
  branch); a second removal of the same path changes nothing; when the slug of the path
  is absent the index is returned as it is; afterwards the slug is absent and every other
  slug is looked up as before.
\<close>

theorem removeFromIndex_idempotent:
  "removeFromIndex (removeFromIndex idx p) p = removeFromIndex idx p \<and>
   (getBySlug idx (slug_of_path p) = None \<longrightarrow> removeFromIndex idx p = idx) \<and>
   getBySlug (removeFromIndex idx p) (slug_of_path p) = None \<and>
   (\<forall>k. k \<noteq> slug_of_path p \<longrightarrow> getBySlug (removeFromIndex idx p) k = getBySlug idx k)"
proof -
  have "getBySlug idx (slug_of_path p) = None \<Longrightarrow> removeFromIndex idx p = idx"
    by (simp add: removeFromIndex_def slug_of_path_def getBySlug_def index_get_def index_has_def)
  then show ?thesis
    by (simp add: removeFromIndex_filter getBySlug_filter_other getBySlug_filter_same)
qed

theorem removeFromIndex_idempotent_witness:
  "getBySlug (index_after_scan site_fs) (slug_of_path ''content/pages/missing.md'') = None \<and>
   removeFromIndex (index_after_scan site_fs) ''content/pages/missing.md'' = index_after_scan site_fs \<and>
   ''a'' \<noteq> slug_of_path ''content/pages/about.md'' \<and>
   getBySlug (removeFromIndex (index_after_scan site_fs) ''content/pages/about.md'') ''a''
     = getBySlug (index_after_scan site_fs) ''a''"
proof -
  have h1: "getBySlug (index_after_scan site_fs) (slug_of_path ''content/pages/missing.md'') = None"
    by code_simp
  have h2: "''a'' \<noteq> slug_of_path ''content/pages/about.md''"
    by code_simp
  from h1 h2 removeFromIndex_idempotent [of "index_after_scan site_fs" "''content/pages/missing.md''"]
    removeFromIndex_idempotent [of "index_after_scan site_fs" "''content/pages/about.md''"]
  show ?thesis by blast
qed

text \<open>
  C2, as amended. Removal is by slug: \<open>removeFromIndex idx p\<close> removes the entries stored
  under the slug of the file name of \<open>p\<close>, from whatever path they were indexed, and
  leaves every entry under another slug in the index.
\<close>

theorem removeFromIndex_by_slug:
  "(\<forall>e \<in> set idx. fst e \<noteq> slug_of_path p \<longrightarrow> e \<in> set (removeFromIndex idx p)) \<and>
   (\<forall>e \<in> set (removeFromIndex idx p). e \<in> set idx \<and> fst e \<noteq> slug_of_path p)"
  by (simp add: removeFromIndex_filter)

theorem removeFromIndex_by_slug_witness:
  "(''about'', contentItem_of site_x ''content/pages/about.md'' (Some ''page'')
       [(''title'', VStr ''About''), (''type'', VStr ''page'')] (Cached text_about))
     \<in> set (index_after_scan site_fs) \<and>
   ''about'' \<noteq> slug_of_path ''content/blog/a.md'' \<and>
   (''about'', contentItem_of site_x ''content/pages/about.md'' (Some ''page'')
       [(''title'', VStr ''About''), (''type'', VStr ''page'')] (Cached text_about))
     \<in> set (removeFromIndex (index_after_scan site_fs) ''content/blog/a.md'') \<and>
   ''about'' \<noteq> slug_of_path ''content/blog/a.md''"
proof -
  let ?e = "(''about'', contentItem_of site_x ''content/pages/about.md'' (Some ''page'')
       [(''title'', VStr ''About''), (''type'', VStr ''page'')] (Cached text_about))"
  have h1: "?e \<in> set (index_after_scan site_fs)" by code_simp
  have h2: "fst ?e \<noteq> slug_of_path ''content/blog/a.md''" by code_simp
  from h1 h2 removeFromIndex_by_slug [of "index_after_scan site_fs" "''content/blog/a.md''"]
  have "?e \<in> set (removeFromIndex (index_after_scan site_fs) ''content/blog/a.md'')" by blast
  with h1 h2 show ?thesis by simp
qed

text \<open>
  C2 as stated fails. A post \<open>content/blog/about.md\<close> and a page
  \<open>content/pages/about.md\<close> share the slug \<open>about\<close>; after the scan the index holds the
  page under it, and the removal of the path of the post removes the record of the page.
\<close>

theorem removeFromIndex_other_path_removed:
  "initialize site_x (start twin_fs) ''content'' = Inr (state_after_scan twin_fs) \<and>
   map_option filePath (getBySlug (index (state_after_scan twin_fs)) ''about'')
     = Some ''content/pages/about.md'' \<and>
   getBySlug (removeFromIndex (index (state_after_scan twin_fs)) ''content/blog/about.md'') ''about''
     = None"
proof -
  have a: "map_option filePath (getBySlug (index (state_after_scan twin_fs)) ''about'')
     = Some ''content/pages/about.md''" by code_simp
  have b: "getBySlug (removeFromIndex (index (state_after_scan twin_fs)) ''content/blog/about.md'')
     ''about'' = None" by code_simp
  show ?thesis by (intro conjI initialize_start a b)
qed

section \<open>Properties of the sorted views\<close>

lemma mset_sort_insert: "mset (sort_insert cmp a bs) = add_mset a (mset bs)"
  by (induction bs) auto

lemma mset_array_sort: "mset (array_sort cmp xs) = mset xs"
  by (induction xs) (auto simp: mset_sort_insert)

lemma set_array_sort: "set (array_sort cmp xs) = set xs"
  using mset_array_sort [of cmp xs] by (metis set_mset_mset)

lemma set_getBlogEntries:
  "set (getBlogEntries x idx) = {i \<in> set (index_values idx). type i = VStr ''blog'' \<and> published i}"
  by (simp add: getBlogEntries_def set_array_sort)

lemma set_getPages:
  "set (getPages x idx) = {i \<in> set (index_values idx). type i = VStr ''page'' \<and> published i}"
  by (simp add: getPages_def set_array_sort)

lemma goes_after_sortable:
  "sortable a \<Longrightarrow> sortable b \<Longrightarrow> goes_after (compare_items x) a b \<longleftrightarrow> \<not> in_view_order a b"
  by (auto simp: sortable_def goes_after_def compare_items_def order_differs_def in_view_order_def
      split: fmval.splits option.splits)

lemma in_view_order_trans:
  "sortable a \<Longrightarrow> sortable b \<Longrightarrow> sortable c \<Longrightarrow>
   in_view_order a b \<Longrightarrow> in_view_order b c \<Longrightarrow> in_view_order a c"
  by (auto simp: sortable_def in_view_order_def split: fmval.splits option.splits)

lemma in_view_order_total:
  "sortable a \<Longrightarrow> sortable b \<Longrightarrow> in_view_order a b \<or> in_view_order b a"
  by (auto simp: sortable_def in_view_order_def split: fmval.splits option.splits)

lemma sorted_sort_insert:
  assumes "sortable a" "\<forall>b \<in> set bs. sortable b" "sorted_wrt in_view_order bs"
  shows "sorted_wrt in_view_order (sort_insert (compare_items x) a bs)"
  using assms
proof (induction bs)
  case Nil
  then show ?case by simp
next
  case (Cons b bs)
  show ?case
  proof (cases "goes_after (compare_items x) a b")
    case True
    with Cons.prems have ba: "in_view_order b a"
      using goes_after_sortable [of a b x] in_view_order_total [of a b] by auto
    have "sorted_wrt in_view_order (sort_insert (compare_items x) a bs)"
      using Cons by simp
    moreover have "\<forall>c \<in> set (sort_insert (compare_items x) a bs). in_view_order b c"
      using Cons.prems ba by (auto simp: set_mset_mset [symmetric] mset_sort_insert simp del: set_mset_mset)
    ultimately show ?thesis using True by simp
  next
    case False
    with Cons.prems have ab: "in_view_order a b"
      using goes_after_sortable [of a b x] by auto
    have "\<forall>c \<in> set bs. in_view_order a c"
    proof
      fix c assume c: "c \<in> set bs"
      with Cons.prems have "in_view_order b c" by auto
      with ab c Cons.prems show "in_view_order a c"
        using in_view_order_trans [of a b c] by auto
    qed
    with ab Cons.prems False show ?thesis by simp
  qed
qed

lemma sorted_array_sort:
  "\<forall>a \<in> set xs. sortable a \<Longrightarrow> sorted_wrt in_view_order (array_sort (compare_items x) xs)"
  by (induction xs) (auto simp: sorted_sort_insert set_array_sort)

text \<open>
  Each view returns exactly the published records of its kind, each as often as the index
  holds it. When all of these have a number as order and a valid date, the view is sorted
  ascending by order, and for equal order by date with the newest first.
\<close>

lemma views_sorted_when_comparable:
  "mset (getBlogEntries x idx)
     = mset (filter (\<lambda>i. type i = VStr ''blog'' \<and> published i) (index_values idx)) \<and>
   mset (getPages x idx)
     = mset (filter (\<lambda>i. type i = VStr ''page'' \<and> published i) (index_values idx)) \<and>
   ((\<forall>i \<in> set (index_values idx). type i = VStr ''blog'' \<and> published i \<longrightarrow> sortable i) \<longrightarrow>
      sorted_wrt in_view_order (getBlogEntries x idx)) \<and>
   ((\<forall>i \<in> set (index_values idx). type i = VStr ''page'' \<and> published i \<longrightarrow> sortable i) \<longrightarrow>
      sorted_wrt in_view_order (getPages x idx))"
  by (simp add: getBlogEntries_def getPages_def mset_array_sort sorted_array_sort)

text \<open>
  On the small site the three posts have the orders 3, 1, 1 and valid dates: the two of
  order 1 come first, the newer before the older.
\<close>

lemma views_sorted_on_site:
  "list_all sortable (index_values (index_after_scan site_fs)) \<and>
   map order (index_values (index_after_scan site_fs)) = [VNum 3, VNum 1, VNum 1, VNum 0] \<and>
   map slug (getBlogEntries site_x (index_after_scan site_fs)) = [''c'', ''b'', ''a''] \<and>
   map slug (getPages site_x (index_after_scan site_fs)) = [''about'']"
  by code_simp

text \<open>
  C4. The views are documented to be sorted by order, ascending, and then by date, newest
  first; the comparison function subtracts the dates without a look at their validity.
  On the index that the scan builds from three posts of order 1, of which the second has
  the front-matter date \<open>soon\<close>, the second post has an Invalid Date, every comparison
  with it gives NaN, no post compares below its predecessor, and the three stay in the
  order of the index: the post of 2025-11-11 is listed before the post of 2025-11-12,
  against the documented order.
\<close>

theorem views_unsorted_with_invalid_date:
  "initialize site_x (start dated_fs) ''content'' = Inr (state_after_scan dated_fs) \<and>
   map (\<lambda>i. (slug i, order i, date i)) (index_values (index (state_after_scan dated_fs)))
     = [(''a'', VNum 1, Some 1762819200000), (''soon'', VNum 1, None),
        (''c'', VNum 1, Some 1762905600000)] \<and>
   compare_items site_x
     (the (getBySlug (index (state_after_scan dated_fs)) ''soon''))
     (the (getBySlug (index (state_after_scan dated_fs)) ''a'')) = None \<and>
   compare_items site_x
     (the (getBySlug (index (state_after_scan dated_fs)) ''c''))
     (the (getBySlug (index (state_after_scan dated_fs)) ''soon'')) = None \<and>
   one_run (compare_items site_x)
     (filter (\<lambda>item. type item = VStr ''blog'' \<and> published item)
        (index_values (index (state_after_scan dated_fs)))) \<and>
   map (\<lambda>i. (slug i, order i, date i)) (getBlogEntries site_x (index (state_after_scan dated_fs)))
     = [(''a'', VNum 1, Some 1762819200000), (''soon'', VNum 1, None),
        (''c'', VNum 1, Some 1762905600000)] \<and>
   \<not> sorted_wrt in_view_order (getBlogEntries site_x (index (state_after_scan dated_fs)))"
proof -
  let ?idx = "index (state_after_scan dated_fs)"
  have a: "map (\<lambda>i. (slug i, order i, date i)) (index_values ?idx)
     = [(''a'', VNum 1, Some 1762819200000), (''soon'', VNum 1, None),
        (''c'', VNum 1, Some 1762905600000)]" by code_simp
  have b: "compare_items site_x (the (getBySlug ?idx ''soon'')) (the (getBySlug ?idx ''a'')) = None"
    by code_simp
  have c: "compare_items site_x (the (getBySlug ?idx ''c'')) (the (getBySlug ?idx ''soon'')) = None"
    by code_simp
  have d: "one_run (compare_items site_x)
     (filter (\<lambda>item. type item = VStr ''blog'' \<and> published item) (index_values ?idx))"
    by code_simp
  have e: "map (\<lambda>i. (slug i, order i, date i)) (getBlogEntries site_x ?idx)
     = [(''a'', VNum 1, Some 1762819200000), (''soon'', VNum 1, None),
        (''c'', VNum 1, Some 1762905600000)]" by code_simp
  have f: "\<not> sorted_wrt in_view_order (getBlogEntries site_x ?idx)" by code_simp
  show ?thesis by (intro conjI initialize_start a b c d e f)
qed

text \<open>
  C9. A record of the index with \<open>published = false\<close> is in neither view, and
  \<open>getBySlug\<close> returns it for its slug: the lookup does not read the flag.
\<close>

theorem unpublished_hidden_but_retrievable:
  assumes "distinct (map fst idx)" "(s, r) \<in> set idx" "\<not> published r"
  shows "r \<notin> set (getBlogEntries x idx) \<and> r \<notin> set (getPages x idx) \<and> getBySlug idx s = Some r"
  using assms by (simp add: set_getBlogEntries set_getPages getBySlug_def index_get_def)

theorem unpublished_hidden_but_retrievable_witness:
  "distinct (map fst (index_after_scan typed_fs)) \<and>
   (''hidden'', contentItem_of site_x ''content/blog/hidden.md'' (Some ''blog'')
       [(''title'', VStr ''Hidden''), (''type'', VStr ''blog''), (''published'', VBool False)]
       (Cached text_hidden))
     \<in> set (index_after_scan typed_fs) \<and>
   \<not> published (contentItem_of site_x ''content/blog/hidden.md'' (Some ''blog'')
       [(''title'', VStr ''Hidden''), (''type'', VStr ''blog''), (''published'', VBool False)]
       (Cached text_hidden)) \<and>
   contentItem_of site_x ''content/blog/hidden.md'' (Some ''blog'')
       [(''title'', VStr ''Hidden''), (''type'', VStr ''blog''), (''published'', VBool False)]
       (Cached text_hidden)
     \<notin> set (getBlogEntries site_x (index_after_scan typed_fs)) \<and>
   getBySlug (index_after_scan typed_fs) ''hidden''
     = Some (contentItem_of site_x ''content/blog/hidden.md'' (Some ''blog'')
       [(''title'', VStr ''Hidden''), (''type'', VStr ''blog''), (''published'', VBool False)]
       (Cached text_hidden))"
proof -
  let ?r = "contentItem_of site_x ''content/blog/hidden.md'' (Some ''blog'')
       [(''title'', VStr ''Hidden''), (''type'', VStr ''blog''), (''published'', VBool False)]
       (Cached text_hidden)"
  have h1: "distinct (map fst (index_after_scan typed_fs))" by code_simp
  have h2: "(''hidden'', ?r) \<in> set (index_after_scan typed_fs)" by code_simp
  have h3: "\<not> published ?r" by code_simp
  note concl = unpublished_hidden_but_retrievable [OF h1 h2 h3, where x = site_x]
  have c: "?r \<notin> set (getBlogEntries site_x (index_after_scan typed_fs))"
    by (rule concl [THEN conjunct1])
  have d: "getBySlug (index_after_scan typed_fs) ''hidden'' = Some ?r"
    by (rule concl [THEN conjunct2, THEN conjunct2])
  from h1 h2 h3 c d show ?thesis by - (intro conjI; assumption)
qed
section \<open>Properties of indexing\<close>

lemma slug_contentItem_of: "slug (contentItem_of x p ty md r) = slug_of_path p"
  by (simp add: contentItem_of_def slug_of_path_def Let_def)

lemma filePath_contentItem_of: "filePath (contentItem_of x p ty md r) = p"
  by (simp add: contentItem_of_def Let_def)

lemma indexFile_parsed:
  "parseFile x (disk w) (cache w) p = (Inr (md, body, r), c') \<Longrightarrow>
     indexFile x w p ty
       = w\<lparr> cache := c', index := index_set (index w) (slug_of_path p) (contentItem_of x p ty md r) \<rparr>"
  by (simp add: indexFile_def indexFile_try_def slug_contentItem_of)


lemma index_indexFile_parsed:
  "fst (parseFile x (disk w) (cache w) p) = Inr (md, body, r) \<Longrightarrow>
     index (indexFile x w p ty) = index_set (index w) (slug_of_path p) (contentItem_of x p ty md r)"
  by (cases "parseFile x (disk w) (cache w) p") (simp add: indexFile_parsed)



lemma reindex_indexFile:
  "reindex x w p = indexFile x w p (Some (if str_includes p ''/blog/'' then ''blog'' else ''page''))"
  by (simp add: reindex_def)

text \<open>
  C6, as amended. When a file is indexed, by the scan or by \<open>reindex\<close>, the date of
  its record is the front-matter date when that is a date or a text that parses as one;
  it is the time of indexing when the field is absent or holds a falsy value; and it is an
  Invalid Date, not the time of indexing, when the field holds a text that does not parse.
\<close>

theorem indexFile_date:
  assumes "fst (parseFile x (disk w) (cache w) p) = Inr (md, body, r)"
  shows "\<exists>item. getBySlug (index (indexFile x w p ty)) (slug_of_path p) = Some item \<and>
      (\<forall>t. get_prop md ''date'' = Some (VDate t) \<longrightarrow> date item = timeClip t) \<and>
      (\<forall>s t. s \<noteq> [] \<and> get_prop md ''date'' = Some (VStr s) \<and> Date_parse x s = Some t
          \<longrightarrow> date item = timeClip t) \<and>
      (get_prop md ''date'' = None \<longrightarrow> date item = Some (clock x p)) \<and>
      (\<forall>d. get_prop md ''date'' = Some d \<and> \<not> truthy d \<longrightarrow> date item = Some (clock x p)) \<and>
      (\<forall>s. s \<noteq> [] \<and> get_prop md ''date'' = Some (VStr s) \<and> Date_parse x s = None
          \<longrightarrow> date item = None)"
proof -
  let ?item = "contentItem_of x p ty md r"
  have "getBySlug (index (indexFile x w p ty)) (slug_of_path p) = Some ?item"
    using assms by (simp add: index_indexFile_parsed getBySlug_index_set)
  moreover have "\<forall>t. get_prop md ''date'' = Some (VDate t) \<longrightarrow> date ?item = timeClip t"
    by (simp add: contentItem_of_def Let_def)
  moreover have "\<forall>s t. s \<noteq> [] \<and> get_prop md ''date'' = Some (VStr s) \<and> Date_parse x s = Some t
          \<longrightarrow> date ?item = timeClip t"
    by (simp add: contentItem_of_def Let_def)
  moreover have "get_prop md ''date'' = None \<longrightarrow> date ?item = Some (clock x p)"
    by (simp add: contentItem_of_def Let_def)
  moreover have "\<forall>d. get_prop md ''date'' = Some d \<and> \<not> truthy d \<longrightarrow> date ?item = Some (clock x p)"
    by (simp add: contentItem_of_def Let_def)
  moreover have "\<forall>s. s \<noteq> [] \<and> get_prop md ''date'' = Some (VStr s) \<and> Date_parse x s = None
          \<longrightarrow> date ?item = None"
    by (simp add: contentItem_of_def Let_def)
  ultimately show ?thesis by (intro exI [of _ ?item] conjI)
qed

theorem indexFile_date_witness:
  "fst (parseFile site_x (disk (start site_fs)) (cache (start site_fs)) ''content/blog/a.md'')
     = Inr ([(''title'', VStr ''A''), (''date'', VDate 1762732800000),
             (''type'', VStr ''blog''), (''order'', VNum 3)], ''First'', Cached text_a) \<and>
   map_option date (getBySlug (index (indexFile site_x (start site_fs) ''content/blog/a.md'' (Some ''blog'')))
      (slug_of_path ''content/blog/a.md'')) = Some (Some 1762732800000) \<and>
   fst (parseFile site_x (disk (start site_fs)) (cache (start site_fs)) ''content/pages/about.md'')
     = Inr ([(''title'', VStr ''About''), (''type'', VStr ''page'')], ''About us'', Cached text_about) \<and>
   map_option date (getBySlug (index (indexFile site_x (start site_fs) ''content/pages/about.md'' (Some ''page'')))
      (slug_of_path ''content/pages/about.md'')) = Some (Some (clock site_x ''content/pages/about.md''))"
proof -
  let ?w = "start site_fs"
  let ?ma = "[(''title'', VStr ''A''), (''date'', VDate 1762732800000),
             (''type'', VStr ''blog''), (''order'', VNum 3)]"
  let ?mb = "[(''title'', VStr ''About''), (''type'', VStr ''page'')]"
  have pa: "fst (parseFile site_x (disk ?w) (cache ?w) ''content/blog/a.md'')
      = Inr (?ma, ''First'', Cached text_a)" by code_simp
  have pb: "fst (parseFile site_x (disk ?w) (cache ?w) ''content/pages/about.md'')
      = Inr (?mb, ''About us'', Cached text_about)" by code_simp
  have da: "get_prop ?ma ''date'' = Some (VDate 1762732800000)" by code_simp
  have db: "get_prop ?mb ''date'' = None" by code_simp
  have tc: "timeClip 1762732800000 = Some 1762732800000" by code_simp
  obtain ia where ia: "getBySlug (index (indexFile site_x ?w ''content/blog/a.md'' (Some ''blog'')))
      (slug_of_path ''content/blog/a.md'') = Some ia"
    and ia_date: "\<forall>t. get_prop ?ma ''date'' = Some (VDate t) \<longrightarrow> date ia = timeClip t"
    using indexFile_date [OF pa, of "Some ''blog''"] by (elim exE conjE)
  from ia_date da tc have "date ia = Some 1762732800000" by simp
  with ia have a: "map_option date (getBySlug (index (indexFile site_x ?w ''content/blog/a.md'' (Some ''blog'')))
      (slug_of_path ''content/blog/a.md'')) = Some (Some 1762732800000)" by simp
  obtain ib where ib: "getBySlug (index (indexFile site_x ?w ''content/pages/about.md'' (Some ''page'')))
      (slug_of_path ''content/pages/about.md'') = Some ib"
    and ib_date: "get_prop ?mb ''date'' = None \<longrightarrow> date ib = Some (clock site_x ''content/pages/about.md'')"
    using indexFile_date [OF pb, of "Some ''page''"] by (elim exE conjE)
  from ib_date db have "date ib = Some (clock site_x ''content/pages/about.md'')" by simp
  with ib have b: "map_option date (getBySlug (index (indexFile site_x ?w ''content/pages/about.md'' (Some ''page'')))
      (slug_of_path ''content/pages/about.md'')) = Some (Some (clock site_x ''content/pages/about.md''))" by simp
  show ?thesis by (intro conjI pa a pb b)
qed

text \<open>
  C6 as stated fails: the front-matter date \<open>soon\<close> does not parse, and the record gets
  an Invalid Date instead of the reading of the clock.
\<close>

theorem indexFile_unparseable_date_invalid:
  "fst (parseFile site_x (disk (start dated_fs)) (cache (start dated_fs)) ''content/blog/soon.md'')
     = Inr ([(''title'', VStr ''Soon''), (''date'', VStr ''soon''),
             (''type'', VStr ''blog''), (''order'', VNum 1)], ''Later'', Cached text_soon) \<and>
   Date_parse site_x ''soon'' = None \<and>
   clock site_x ''content/blog/soon.md'' = 1763000000000 \<and>
   map_option date (getBySlug (index (reindex site_x (start dated_fs) ''content/blog/soon.md'')) ''soon'')
     = Some None"
  by code_simp

text \<open>
  C10, as amended. When the front-matter type is a truthy value other than \<open>blog\<close> and
  \<open>page\<close> (\<open>Blog\<close>, say), the record is stored with that value as its type, under
  its slug, where \<open>getBySlug\<close> finds it, and neither view lists it. When the type is
  absent, or present and falsy, the record is stored with the type of its directory: the
  type that the scan passes for the directory, and for \<open>reindex\<close> the type \<open>blog\<close> when
  the path has \<open>/blog/\<close> in it and \<open>page\<close> when not.
\<close>

theorem foreign_type_stored_unlisted:
  "(fst (parseFile x (disk w) (cache w) p) = Inr (md, body, r) \<and>
    get_prop md ''type'' = Some v \<and> truthy v \<and> v \<noteq> VStr ''blog'' \<and> v \<noteq> VStr ''page''
    \<longrightarrow> stored_unlisted x v p (index (indexFile x w p ty)) \<and>
        stored_unlisted x v p (index (reindex x w p))) \<and>
   (fst (parseFile x (disk w) (cache w) p) = Inr (md, body, r) \<and>
    (get_prop md ''type'' = None \<or> (\<exists>u. get_prop md ''type'' = Some u \<and> \<not> truthy u))
    \<longrightarrow> map_option type (getBySlug (index (indexFile x w p (Some ''blog''))) (slug_of_path p))
          = Some (VStr ''blog'') \<and>
        map_option type (getBySlug (index (indexFile x w p (Some ''page''))) (slug_of_path p))
          = Some (VStr ''page'') \<and>
        map_option type (getBySlug (index (reindex x w p)) (slug_of_path p))
          = Some (VStr (if str_includes p ''/blog/'' then ''blog'' else ''page'')))"
proof (intro conjI impI)
  assume h: "fst (parseFile x (disk w) (cache w) p) = Inr (md, body, r) \<and>
    get_prop md ''type'' = Some v \<and> truthy v \<and> v \<noteq> VStr ''blog'' \<and> v \<noteq> VStr ''page''"
  have one: "stored_unlisted x v p (index (indexFile x w p ty'))" for ty'
  proof -
    let ?item = "contentItem_of x p ty' md r"
    have t: "type ?item = v" using h by (simp add: contentItem_of_def Let_def or_else_def)
    have "getBySlug (index (indexFile x w p ty')) (slug_of_path p) = Some ?item"
      using h by (simp add: index_indexFile_parsed getBySlug_index_set)
    moreover have "?item \<notin> set (getBlogEntries x (index (indexFile x w p ty')))"
      using t h by (simp add: set_getBlogEntries)
    moreover have "?item \<notin> set (getPages x (index (indexFile x w p ty')))"
      using t h by (simp add: set_getPages)
    ultimately show ?thesis
      unfolding stored_unlisted_def
      by (intro exI [of _ ?item] conjI t filePath_contentItem_of)
  qed
  show "stored_unlisted x v p (index (indexFile x w p ty))" by (rule one)
  show "stored_unlisted x v p (index (reindex x w p))" by (simp add: reindex_indexFile one)
next
  assume h: "fst (parseFile x (disk w) (cache w) p) = Inr (md, body, r) \<and>
    (get_prop md ''type'' = None \<or> (\<exists>u. get_prop md ''type'' = Some u \<and> \<not> truthy u))"
  have dir: "map_option type (getBySlug (index (indexFile x w p (Some d))) (slug_of_path p))
          = Some (VStr d)" if "d \<noteq> []" for d
  proof -
    have "type (contentItem_of x p (Some d) md r) = VStr d"
      using h that by (auto simp: contentItem_of_def Let_def or_else_def)
    then show ?thesis using h by (simp add: index_indexFile_parsed getBySlug_index_set)
  qed
  show "map_option type (getBySlug (index (indexFile x w p (Some ''blog''))) (slug_of_path p))
          = Some (VStr ''blog'')" by (rule dir) simp
  show "map_option type (getBySlug (index (indexFile x w p (Some ''page''))) (slug_of_path p))
          = Some (VStr ''page'')" by (rule dir) simp
  show "map_option type (getBySlug (index (reindex x w p)) (slug_of_path p))
          = Some (VStr (if str_includes p ''/blog/'' then ''blog'' else ''page''))"
    unfolding reindex_indexFile by (rule dir) simp
qed

theorem foreign_type_stored_unlisted_witness:
  "fst (parseFile site_x (disk (start typed_fs)) (cache (start typed_fs)) ''content/blog/cased.md'')
     = Inr ([(''title'', VStr ''Cased''), (''type'', VStr ''Blog'')], ''Body'', Cached text_cased) \<and>
   get_prop [(''title'', VStr ''Cased''), (''type'', VStr ''Blog'')] ''type'' = Some (VStr ''Blog'') \<and>
   truthy (VStr ''Blog'') \<and> VStr ''Blog'' \<noteq> VStr ''blog'' \<and> VStr ''Blog'' \<noteq> VStr ''page'' \<and>
   map_option published
     (getBySlug (index (reindex site_x (start typed_fs) ''content/blog/cased.md'')) ''cased'')
     = Some True \<and>
   stored_unlisted site_x (VStr ''Blog'') ''content/blog/cased.md''
     (index (reindex site_x (start typed_fs) ''content/blog/cased.md'')) \<and>
   fst (parseFile site_x (disk (start typed_fs)) (cache (start typed_fs)) ''content/blog/untyped.md'')
     = Inr ([(''title'', VStr ''Untyped''), (''type'', VStr [])], ''Body'', Cached text_untyped) \<and>
   get_prop [(''title'', VStr ''Untyped''), (''type'', VStr [])] ''type'' = Some (VStr []) \<and>
   \<not> truthy (VStr []) \<and>
   map_option type
     (getBySlug (index (reindex site_x (start typed_fs) ''content/blog/untyped.md''))
        (slug_of_path ''content/blog/untyped.md''))
     = Some (VStr ''blog'')"
proof -
  let ?w = "start typed_fs"
  let ?md = "[(''title'', VStr ''Cased''), (''type'', VStr ''Blog'')]"
  let ?mu = "[(''title'', VStr ''Untyped''), (''type'', VStr [])]"
  have h1: "fst (parseFile site_x (disk ?w) (cache ?w) ''content/blog/cased.md'')
      = Inr (?md, ''Body'', Cached text_cased)" by code_simp
  have h2: "get_prop ?md ''type'' = Some (VStr ''Blog'')" by code_simp
  have h3: "truthy (VStr ''Blog'')" by simp
  have h4: "VStr ''Blog'' \<noteq> VStr ''blog''" by simp
  have h5: "VStr ''Blog'' \<noteq> VStr ''page''" by simp
  have pub: "map_option published
     (getBySlug (index (reindex site_x ?w ''content/blog/cased.md'')) ''cased'') = Some True"
    by code_simp
  have hyp1: "fst (parseFile site_x (disk ?w) (cache ?w) ''content/blog/cased.md'')
      = Inr (?md, ''Body'', Cached text_cased) \<and>
    get_prop ?md ''type'' = Some (VStr ''Blog'') \<and> truthy (VStr ''Blog'') \<and>
    VStr ''Blog'' \<noteq> VStr ''blog'' \<and> VStr ''Blog'' \<noteq> VStr ''page''"
    by (intro conjI h1 h2 h3 h4 h5)
  have c: "stored_unlisted site_x (VStr ''Blog'') ''content/blog/cased.md''
     (index (reindex site_x ?w ''content/blog/cased.md''))"
    by (rule foreign_type_stored_unlisted [of site_x ?w "''content/blog/cased.md''" ?md "''Body''"
          "Cached text_cased" "VStr ''Blog''" None, THEN conjunct1, THEN mp, OF hyp1, THEN conjunct2])
  have u1: "fst (parseFile site_x (disk ?w) (cache ?w) ''content/blog/untyped.md'')
      = Inr (?mu, ''Body'', Cached text_untyped)" by code_simp
  have u2: "get_prop ?mu ''type'' = Some (VStr [])" by code_simp
  have u3: "\<not> truthy (VStr [])" by simp
  have "\<exists>u. get_prop ?mu ''type'' = Some u \<and> \<not> truthy u"
    by (intro exI [of _ "VStr []"] conjI u2 u3)
  then have hyp2: "fst (parseFile site_x (disk ?w) (cache ?w) ''content/blog/untyped.md'')
      = Inr (?mu, ''Body'', Cached text_untyped) \<and>
    (get_prop ?mu ''type'' = None \<or> (\<exists>u. get_prop ?mu ''type'' = Some u \<and> \<not> truthy u))"
    using u1 by (intro conjI disjI2)
  have inc: "str_includes ''content/blog/untyped.md'' ''/blog/''" by code_simp
  have "map_option type
     (getBySlug (index (reindex site_x ?w ''content/blog/untyped.md''))
        (slug_of_path ''content/blog/untyped.md''))
     = Some (VStr (if str_includes ''content/blog/untyped.md'' ''/blog/'' then ''blog'' else ''page''))"
    by (rule foreign_type_stored_unlisted [of site_x ?w "''content/blog/untyped.md''" ?mu "''Body''"
          "Cached text_untyped" "VStr []" None, THEN conjunct2, THEN mp, OF hyp2,
          THEN conjunct2, THEN conjunct2])
  with inc have d: "map_option type
     (getBySlug (index (reindex site_x ?w ''content/blog/untyped.md''))
        (slug_of_path ''content/blog/untyped.md'')) = Some (VStr ''blog'')" by simp
  show ?thesis by (intro conjI h1 h2 h3 h4 h5 pub c u1 u2 u3 d)
qed

text \<open>
  C10 as stated fails for a type that is present and falsy: with the empty string as type
  a file of the blog directory is stored with the type \<open>blog\<close> and listed as a post.
\<close>

theorem empty_type_takes_directory_type:
  "fst (parseFile site_x (disk (start typed_fs)) (cache (start typed_fs)) ''content/blog/untyped.md'')
     = Inr ([(''title'', VStr ''Untyped''), (''type'', VStr [])], ''Body'', Cached text_untyped) \<and>
   map_option type (getBySlug (index (reindex site_x (start typed_fs) ''content/blog/untyped.md'')) ''untyped'')
     = Some (VStr ''blog'') \<and>
   map slug (getBlogEntries site_x (index (reindex site_x (start typed_fs) ''content/blog/untyped.md'')))
     = [''untyped'']"
  by code_simp
section \<open>Properties of the scan\<close>






















text \<open>
  gray-matter keeps the text of a file whose parse failed in its cache, with empty data,
  and a second parse of the same text returns that entry. On the small site the parse of
  \<open>broken.md\<close> fails during the scan; after the scan the parse of the unchanged file
  succeeds, and its \<open>reindex\<close> stores a record made of the defaults.
\<close>

lemma reindex_after_failed_parse:
  "\<not> parses site_x (start site_fs) ''content/blog/broken.md'' \<and>
   map fst (index (state_after_scan site_fs)) = [''a'', ''b'', ''c'', ''about''] \<and>
   parses site_x (state_after_scan site_fs) ''content/blog/broken.md'' \<and>
   map fst (index (reindex site_x (state_after_scan site_fs) ''content/blog/broken.md''))
     = [''a'', ''b'', ''c'', ''about'', ''broken''] \<and>
   map_option (\<lambda>i. (title i, type i, order i, published i,
       metadata_of (cache (reindex site_x (state_after_scan site_fs) ''content/blog/broken.md'')) i))
     (getBySlug (index (reindex site_x (state_after_scan site_fs) ''content/blog/broken.md''))
        ''broken'')
     = Some (VStr ''broken'', VStr ''blog'', VNum 0, True, [])"
  by code_simp
section \<open>Properties of the admin handlers\<close>

















text \<open>No handler adds, replaces or removes an entry of the index.\<close>

lemma kix_if:
  "index (snd a) = i \<Longrightarrow> index (snd b) = i \<Longrightarrow> index (snd (if c then a else b)) = i"
  by simp

lemma kix_let: "(\<And>v. index (snd (f v)) = i) \<Longrightarrow> index (snd (Let e f)) = i"
  by (simp add: Let_def)

lemma kix_sum:
  "(\<And>e. index (snd (f e)) = i) \<Longrightarrow> (\<And>v. index (snd (g v)) = i) \<Longrightarrow>
     index (snd (case s of Inl e \<Rightarrow> f e | Inr v \<Rightarrow> g v)) = i"
  by (cases s) simp_all

lemma kix_option:
  "index (snd a) = i \<Longrightarrow> (\<And>v. index (snd (g v)) = i) \<Longrightarrow>
     index (snd (case s of None \<Rightarrow> a | Some v \<Rightarrow> g v)) = i"
  by (cases s) simp_all

lemma kix_prod:
  "(\<And>a b. index (snd (f a b)) = i) \<Longrightarrow> index (snd (case p of (a, b) \<Rightarrow> f a b)) = i"
  by (cases p) simp

lemmas kix_rules = kix_if kix_let kix_sum kix_option kix_prod

lemma createPost_index: "index (snd (handler_adminCreatePost x cfg now stamp w body)) = index w"
  unfolding handler_adminCreatePost_def by (intro kix_rules) simp_all

lemma editPost_index: "index (snd (handler_adminEditPost x cfg w s body)) = index w"
  unfolding handler_adminEditPost_def by (intro kix_rules) simp_all

lemma delete_index: "index (snd (handler_adminDelete x cfg w s)) = index w"
  unfolding handler_adminDelete_def by (intro kix_rules) simp_all

lemma reorder_item_index: "index (snd (snd (reorder_item x cfg w it))) = index w"
  by (cases it) (simp add: reorder_item_def Let_def split: sum.splits option.splits prod.splits)

lemma reorder_items_index: "index (snd (snd (reorder_items x cfg w its))) = index w"
proof (induction its arbitrary: w)
  case Nil
  show ?case by simp
next
  case (Cons it its)
  obtain res effs w1 where r: "reorder_item x cfg w it = (res, effs, w1)"
    by (cases "reorder_item x cfg w it") auto
  obtain results effs' w2 where rs: "reorder_items x cfg w1 its = (results, effs', w2)"
    by (cases "reorder_items x cfg w1 its") auto
  have "index w1 = index w" using reorder_item_index [of x cfg w it] r by simp
  moreover have "index w2 = index w1" using Cons.IH [of w1] rs by simp
  ultimately show ?case using r rs by simp
qed

lemma reorder_index: "index (snd (handler_adminReorder x cfg w items)) = index w"
proof (cases items)
  case None
  then show ?thesis by (simp add: handler_adminReorder_def)
next
  case (Some its)
  obtain results effs w' where rs: "reorder_items x cfg w its = (results, effs, w')"
    by (cases "reorder_items x cfg w its") auto
  have "index w' = index w" using reorder_items_index [of x cfg w its] rs by simp
  with Some rs show ?thesis by (simp add: handler_adminReorder_def Let_def)
qed

text \<open>
  The reorder handler assigns the new order to the data object that the parse returned.
  The record of the index holds the same object: after the handler, and before any event
  of the watcher, the front matter that the record of \<open>tagged\<close> holds has the order 5,
  while its own order is still 1; and a later parse of the old text returns the changed
  data.
\<close>

lemma reorder_changes_held_metadata:
  "map_option (\<lambda>i. (order i, get_prop (metadata_of (cache (state_after_scan tagged_fs)) i) ''order''))
     (getBySlug (index (state_after_scan tagged_fs)) ''tagged'')
     = Some (VNum 1, Some (VNum 1)) \<and>
   map_option
     (\<lambda>i. (order i,
            get_prop (metadata_of
              (cache (snd (handler_adminReorder site_x site_cfg (state_after_scan tagged_fs)
                 (Some [(''tagged'', VNum 5)])))) i) ''order''))
     (getBySlug
        (index (snd (handler_adminReorder site_x site_cfg (state_after_scan tagged_fs)
           (Some [(''tagged'', VNum 5)])))) ''tagged'')
     = Some (VNum 1, Some (VNum 5)) \<and>
   map_sum id (\<lambda>r. get_prop (fst r) ''order'')
     (fst (matter site_x
        (cache (snd (handler_adminReorder site_x site_cfg (state_after_scan tagged_fs)
           (Some [(''tagged'', VNum 5)])))) text_tagged))
     = Inr (Some (VNum 5))"
  by code_simp

text \<open>
  C7. The claim is that a reorder leaves every front-matter key other than \<open>order\<close> with
  its value. The post \<open>tagged.md\<close> has the front matter of the README, with the array
  \<open>tags: ["tag1", "tag2"]\<close>. The handler writes strings and dates by cases of their own
  and every other value by a template literal: for the order 5 it rewrites the file with
  the line \<open>tags: tag1,tag2\<close>, and when the watcher has the file indexed again the tags of
  the record are one string, no longer an array of two.
\<close>

theorem reorder_writes_array_as_text:
  "files (disk (state_after_scan tagged_fs)) ''content/blog/tagged.md'' = Some text_tagged \<and>
   map_option (\<lambda>i. get_prop (metadata_of (cache (state_after_scan tagged_fs)) i) ''tags'')
     (getBySlug (index (state_after_scan tagged_fs)) ''tagged'')
     = Some (Some (VArr [VStr ''tag1'', VStr ''tag2''])) \<and>
   fst (handler_adminReorder site_x site_cfg (state_after_scan tagged_fs) (Some [(''tagged'', VNum 5)]))
     = [WriteFile ''content/blog/tagged.md''
          (''---'' @ [CHR 0x0A]
           @ ''title: '' @ [CHR 0x22] @ ''Post Title'' @ [CHR 0x22] @ [CHR 0x0A]
           @ ''date: 2025-11-13'' @ [CHR 0x0A]
           @ ''type: '' @ [CHR 0x22] @ ''blog'' @ [CHR 0x22] @ [CHR 0x0A]
           @ ''order: 5'' @ [CHR 0x0A]
           @ ''published: true'' @ [CHR 0x0A]
           @ ''tags: tag1,tag2'' @ [CHR 0x0A]
           @ ''---'' @ [CHR 0x0A]
           @ ''Body''),
        Respond (JsonUpdated ''Order updated successfully'' 1)] \<and>
   map_option
     (\<lambda>i. get_prop (metadata_of
        (cache (on_watch_event site_x
           (snd (handler_adminReorder site_x site_cfg (state_after_scan tagged_fs)
              (Some [(''tagged'', VNum 5)])))
           (Change ''content/blog/tagged.md''))) i) ''tags'')
     (getBySlug
        (index (on_watch_event site_x
           (snd (handler_adminReorder site_x site_cfg (state_after_scan tagged_fs)
              (Some [(''tagged'', VNum 5)])))
           (Change ''content/blog/tagged.md''))) ''tagged'')
     = Some (Some (VStr ''tag1,tag2''))"
  by code_simp




end
